theory Spec2Isabelle
  imports Complex_Main "HOL-Library.AList"
begin

section \<open>Currency converter: rate resolution, caching and history\<close>

text \<open>
  A shallow embedding of the client module \<^verbatim>\<open>CurrencyAPI\<close> (JavaScript) and of the
  server endpoints \<^verbatim>\<open>convert.php\<close>, \<^verbatim>\<open>symbols.php\<close>, \<^verbatim>\<open>timeseries.php\<close> and
  \<^verbatim>\<open>history.php\<close>.

  Conventions of the model:
  \<^item> numbers are exact rationals (\<open>rat\<close>): the IEEE doubles of JavaScript and PHP are
    idealised, so a statement about a rounded value is a statement about exact
    arithmetic followed by the source's rounding step;
  \<^item> clock readings (\<^verbatim>\<open>Date.now()\<close>, \<^verbatim>\<open>time()\<close>, \<^verbatim>\<open>filemtime\<close>) are integers handed in by
    the caller, one for each moment at which the source reads the clock; calendar
    dates are day numbers, and an instant stands for its ISO-8601 rendering;
  \<^item> the answer of the network to the one request an operation may issue is handed
    in by the caller; every operation returns the list of requests it issued, so that
    "the inner source was not called" is a statement about that list;
  \<^item> pseudo-random draws are handed in as a function of the loop counter;
  \<^item> currency codes are ASCII strings;
  \<^item> writes to a cache file and to \<^verbatim>\<open>localStorage\<close> succeed; the PHP endpoints are
    entered after their method check, with a GET (or POST) request;
  \<^item> the state of a server cache is the set of its cache files; the directory that holds
    them, which an endpoint creates with \<^verbatim>\<open>mkdir\<close> when it is missing, is not part of the
    state.
\<close>

subsection \<open>Strings, truthiness and rounding\<close>

definition upper_char :: "char \<Rightarrow> char" where
  "upper_char c =
     (let n = (of_char c :: nat) in if 97 \<le> n \<and> n \<le> 122 then char_of (n - 32) else c)"

text \<open>JavaScript \<^verbatim>\<open>String.prototype.toUpperCase\<close>, on ASCII.\<close>

definition toUpperCase :: "string \<Rightarrow> string" where
  "toUpperCase s = map upper_char s"

text \<open>PHP \<^verbatim>\<open>strtoupper\<close> (bytes \<^verbatim>\<open>a\<close>..\<^verbatim>\<open>z\<close> only).\<close>

definition strtoupper :: "string \<Rightarrow> string" where
  "strtoupper s = map upper_char s"

text \<open>PHP \<^verbatim>\<open>trim\<close>: strips space, tab, newline, carriage return, NUL and vertical tab.\<close>

definition is_trim_char :: "char \<Rightarrow> bool" where
  "is_trim_char c = ((of_char c :: nat) \<in> {32, 9, 10, 13, 0, 11})"

definition trim :: "string \<Rightarrow> string" where
  "trim s = rev (dropWhile is_trim_char (rev (dropWhile is_trim_char s)))"

text \<open>PHP \<^verbatim>\<open>empty\<close> on a string: the empty string and \<^verbatim>\<open>"0"\<close> are empty.\<close>

definition php_empty :: "string \<Rightarrow> bool" where
  "php_empty s = (s = [] \<or> s = ''0'')"

text \<open>
  An integer in decimal, as a JavaScript template literal and PHP's \<^verbatim>\<open>.\<close> operator
  render it.
\<close>

definition digit_char :: "nat \<Rightarrow> char" where
  "digit_char d = char_of ((of_char CHR ''0'' :: nat) + d)"

fun decimal :: "nat \<Rightarrow> string" where
  "decimal n =
     (if 10 \<le> n then decimal (n div 10) @ [digit_char (n mod 10)] else [digit_char n])"

declare decimal.simps [simp del]

definition number_string :: "int \<Rightarrow> string" where
  "number_string i = (if 0 \<le> i then decimal (nat i) else CHR ''-'' # decimal (nat (- i)))"

text \<open>JavaScript \<^verbatim>\<open>Math.round\<close>: the nearest integer, a tie going up.\<close>

definition Math_round :: "rat \<Rightarrow> int" where
  "Math_round x = \<lfloor>x + 1 / 2\<rfloor>"

text \<open>PHP \<^verbatim>\<open>round($x, $p)\<close>: to \<open>p\<close> decimal places, a tie going away from zero.\<close>

definition php_round :: "rat \<Rightarrow> nat \<Rightarrow> rat" where
  "php_round x p =
     (if 0 \<le> x then of_int \<lfloor>x * 10 ^ p + 1 / 2\<rfloor> / 10 ^ p
      else - (of_int \<lfloor>- x * 10 ^ p + 1 / 2\<rfloor> / 10 ^ p))"

subsection \<open>Results shared by client and server\<close>

record symbol_info =
  description :: string
  symbol :: string

text \<open>
  A conversion result. \<open>c_cached\<close> and \<open>c_fallback\<close> are \<open>None\<close> when the object has no
  such key.
\<close>

record conversion =
  c_success :: bool
  c_from :: string
  c_to :: string
  c_amount :: rat
  c_result :: rat
  c_rate :: rat
  c_date :: int
  c_cached :: "bool option"
  c_fallback :: "bool option"

section \<open>The client: class \<^verbatim>\<open>CurrencyAPI\<close>\<close>

text \<open>\<^verbatim>\<open>this.cacheTimeout = 5 * 60 * 1000\<close> (milliseconds).\<close>

definition cacheTimeout :: int where
  "cacheTimeout = 5 * 60 * 1000"

definition fallbackSymbols :: "(string \<times> symbol_info) list" where
  "fallbackSymbols =
     [(''USD'', \<lparr>description = ''US Dollar'', symbol = ''$''\<rparr>),
      (''EUR'', \<lparr>description = ''Euro'', symbol = [CHR 0xE2, CHR 0x82, CHR 0xAC]\<rparr>),
      (''GBP'', \<lparr>description = ''British Pound'', symbol = [CHR 0xC2, CHR 0xA3]\<rparr>),
      (''JPY'', \<lparr>description = ''Japanese Yen'', symbol = [CHR 0xC2, CHR 0xA5]\<rparr>),
      (''CHF'', \<lparr>description = ''Swiss Franc'', symbol = ''CHF''\<rparr>),
      (''CAD'', \<lparr>description = ''Canadian Dollar'', symbol = ''C$''\<rparr>),
      (''AUD'', \<lparr>description = ''Australian Dollar'', symbol = ''A$''\<rparr>),
      (''CNY'', \<lparr>description = ''Chinese Yuan'', symbol = [CHR 0xC2, CHR 0xA5]\<rparr>),
      (''RUB'', \<lparr>description = ''Russian Ruble'', symbol = [CHR 0xE2, CHR 0x82, CHR 0xBD]\<rparr>),
      (''INR'', \<lparr>description = ''Indian Rupee'', symbol = [CHR 0xE2, CHR 0x82, CHR 0xB9]\<rparr>),
      (''BRL'', \<lparr>description = ''Brazilian Real'', symbol = ''R$''\<rparr>),
      (''KRW'', \<lparr>description = ''South Korean Won'', symbol = [CHR 0xE2, CHR 0x82, CHR 0xA9]\<rparr>),
      (''MXN'', \<lparr>description = ''Mexican Peso'', symbol = ''$''\<rparr>),
      (''SGD'', \<lparr>description = ''Singapore Dollar'', symbol = ''S$''\<rparr>),
      (''HKD'', \<lparr>description = ''Hong Kong Dollar'', symbol = ''HK$''\<rparr>),
      (''NOK'', \<lparr>description = ''Norwegian Krone'', symbol = ''kr''\<rparr>),
      (''SEK'', \<lparr>description = ''Swedish Krona'', symbol = ''kr''\<rparr>),
      (''DKK'', \<lparr>description = ''Danish Krone'', symbol = ''kr''\<rparr>),
      (''PLN'', \<lparr>description = ''Polish Zloty'', symbol = ''z'' @ [CHR 0xC5, CHR 0x82]\<rparr>),
      (''CZK'', \<lparr>description = ''Czech Koruna'', symbol = ''K'' @ [CHR 0xC4, CHR 0x8D]\<rparr>)]"

definition fallbackRates :: "(string \<times> rat) list" where
  "fallbackRates =
     [(''USD'', 1), (''EUR'', 85 / 100), (''GBP'', 73 / 100), (''JPY'', 110),
      (''CHF'', 92 / 100), (''CAD'', 125 / 100), (''AUD'', 135 / 100), (''CNY'', 645 / 100),
      (''RUB'', 75), (''INR'', 74), (''BRL'', 52 / 10), (''KRW'', 1180),
      (''MXN'', 20), (''SGD'', 135 / 100), (''HKD'', 78 / 10), (''NOK'', 85 / 10),
      (''SEK'', 87 / 10), (''DKK'', 63 / 10), (''PLN'', 39 / 10), (''CZK'', 215 / 10)]"

text \<open>
  What \<^verbatim>\<open>fetch\<close> gives: a rejected promise, or a response with its \<^verbatim>\<open>ok\<close> flag and its
  body (\<open>None\<close> when \<^verbatim>\<open>response.json()\<close> rejects).
\<close>

datatype 'j fetch_result = Rejected | Response bool "'j option"

text \<open>\<^verbatim>\<open>request\<close>: \<open>None\<close> when it throws.\<close>

definition request :: "'j fetch_result \<Rightarrow> 'j option" where
  "request r =
     (case r of
        Rejected \<Rightarrow> None
      | Response ok body \<Rightarrow> if \<not> ok then None else body)"

text \<open>The requests the client sends to the back end, by endpoint and query parameters.\<close>

datatype api_request =
    SymbolsRequest
  | ConvertRequest string string rat
  | TimeseriesRequest string string int
  | HistoryRequest

datatype client_error = InvalidParameters | UnsupportedCurrency

text \<open>The fallback objects the client builds itself.\<close>

record symbols_data =
  sd_success :: bool
  sd_symbols :: "(string \<times> symbol_info) list"
  sd_cached :: bool
  sd_timestamp :: int
  sd_fallback :: bool

record series_data =
  ts_from :: string
  ts_to :: string
  ts_rates :: "(int \<times> rat) list"
  ts_fallback :: bool

text \<open>
  What an operation returns: the JSON of the back end as received (of any type \<open>'j\<close>),
  or an object built by the client.
\<close>

datatype 'j payload =
    Backend 'j
  | Symbols symbols_data
  | Converted conversion
  | Series series_data

record 'j cache_entry =
  data :: "'j payload"
  timestamp :: int

type_synonym 'j cache = "string \<rightharpoonup> 'j cache_entry"

text \<open>
  What one call reads from the world: the answer of \<^verbatim>\<open>fetch\<close> to its request,
  \<^verbatim>\<open>Date.now()\<close> at the cache check, the clock after the request has settled (in
  milliseconds, as \<^verbatim>\<open>Date.now()\<close> and \<^verbatim>\<open>new Date()\<close> give it), the local time zone, and
  \<^verbatim>\<open>Math.random()\<close> in the loop iteration with counter \<open>i\<close>. The time zone is given by
  \<open>w_offset\<close>: \<open>w_offset w i\<close> is the UTC offset (local time minus UTC, in milliseconds) in
  force at the local date and time \<open>i\<close> calendar days before the local date and time of
  the call, so \<open>w_offset w 0\<close> is the offset at the time of the call.
\<close>

record 'j world =
  w_net :: "'j fetch_result"
  w_now :: int
  w_later :: int
  w_offset :: "int \<Rightarrow> int"
  w_random :: "int \<Rightarrow> rat"

text \<open>
  The cache check of \<^verbatim>\<open>getSymbols\<close> and \<^verbatim>\<open>getTimeSeries\<close>: the key is in the map and
  \<^verbatim>\<open>Date.now() - cached.timestamp < this.cacheTimeout\<close>.
\<close>

definition cache_get :: "'j cache \<Rightarrow> string \<Rightarrow> int \<Rightarrow> 'j payload option" where
  "cache_get cache cacheKey now =
     (case cache cacheKey of
        None \<Rightarrow> None
      | Some cached \<Rightarrow> if now - timestamp cached < cacheTimeout then Some (data cached) else None)"

text \<open>
  \<^verbatim>\<open>getSymbols\<close>. The result is the value returned (or the error thrown), the cache
  afterwards and the requests issued.
\<close>

definition getSymbols ::
  "'j world \<Rightarrow> 'j cache \<Rightarrow> (client_error + 'j payload) \<times> 'j cache \<times> api_request list" where
  "getSymbols w cache =
     (let cacheKey = ''symbols'' in
      case cache_get cache cacheKey (w_now w) of
        Some d \<Rightarrow> (Inr d, cache, [])
      | None \<Rightarrow>
          (case request (w_net w) of
             Some d \<Rightarrow>
               (Inr (Backend d),
                cache(cacheKey \<mapsto> \<lparr>data = Backend d, timestamp = w_later w\<rparr>),
                [SymbolsRequest])
           | None \<Rightarrow>
               let fallbackData =
                     Symbols \<lparr>sd_success = True, sd_symbols = fallbackSymbols, sd_cached = False,
                              sd_timestamp = w_later w, sd_fallback = True\<rparr>
               in (Inr fallbackData,
                   cache(cacheKey \<mapsto> \<lparr>data = fallbackData, timestamp = w_later w\<rparr>),
                   [SymbolsRequest])))"

text \<open>
  \<^verbatim>\<open>convert\<close>. A looked-up rate is falsy when the key is absent or the value is zero.
  The client keeps no cache for conversions.
\<close>

definition convert ::
  "'j world \<Rightarrow> string \<Rightarrow> string \<Rightarrow> rat \<Rightarrow> (client_error + 'j payload) \<times> api_request list" where
  "convert w frm to amount =
     (if frm = [] \<or> to = [] \<or> amount = 0 \<or> amount \<le> 0 then (Inl InvalidParameters, [])
      else
        let rq = ConvertRequest (toUpperCase frm) (toUpperCase to) amount in
        case request (w_net w) of
          Some d \<Rightarrow> (Inr (Backend d), [rq])
        | None \<Rightarrow>
            let fromUpper = toUpperCase frm;
                toUpper = toUpperCase to
            in (case (map_of fallbackRates fromUpper, map_of fallbackRates toUpper) of
                  (Some rf, Some rt) \<Rightarrow>
                    if rf = 0 \<or> rt = 0 then (Inl UnsupportedCurrency, [rq])
                    else
                      let rate = rt / rf;
                          result = amount * rate
                      in (Inr (Converted
                                \<lparr>c_success = True, c_from = fromUpper, c_to = toUpper,
                                 c_amount = amount,
                                 c_result = of_int (Math_round (result * 100)) / 100,
                                 c_rate = of_int (Math_round (rate * 1000000)) / 1000000,
                                 c_date = w_later w, c_cached = None, c_fallback = Some True\<rparr>),
                          [rq])
                | _ \<Rightarrow> (Inl UnsupportedCurrency, [rq])))"

text \<open>
  The date key of the loop iteration with counter \<open>i\<close>, as a day number (days since
  1970-01-01 in UTC): \<^verbatim>\<open>new Date()\<close>, then \<^verbatim>\<open>date.setDate(date.getDate() - i)\<close>, which moves the
  local calendar date back by \<open>i\<close> days and keeps the local time of day, then
  \<^verbatim>\<open>date.toISOString().split("T")[0]\<close>, the date in UTC of the instant so reached. The
  clock is read once for the whole loop.
\<close>

definition day_ms :: int where
  "day_ms = 24 * 60 * 60 * 1000"

definition date_key :: "int \<Rightarrow> (int \<Rightarrow> int) \<Rightarrow> int \<Rightarrow> int" where
  "date_key now offset i =
     (let local = now + offset 0;
          wall = (local div day_ms - i) * day_ms + local mod day_ms
      in (wall - offset i) div day_ms)"

text \<open>
  The loop of the time-series fallback, \<^verbatim>\<open>for (let i = days; i >= 0; i--)\<close>. The object
  \<^verbatim>\<open>rates\<close> is an association list in insertion order; assigning to a key that exists
  replaces its value in place.
\<close>

function fallback_loop ::
  "(int \<Rightarrow> rat) \<Rightarrow> int \<Rightarrow> (int \<Rightarrow> int) \<Rightarrow> rat \<Rightarrow> int \<Rightarrow> (int \<times> rat) list \<Rightarrow>
     (int \<times> rat) list" where
  "fallback_loop random now offset baseRate i rates =
     (if i \<ge> 0 then
        let dateStr = date_key now offset i;
            variation = (random i - 1 / 2) * (1 / 10);
            rate = baseRate * (1 + variation)
        in fallback_loop random now offset baseRate (i - 1) (AList.update dateStr rate rates)
      else rates)"
  by pat_completeness auto
termination
  by (relation "measure (\<lambda>(random, now, offset, baseRate, i, rates). nat (i + 1))") auto

declare fallback_loop.simps [simp del]

definition getTimeSeries ::
  "'j world \<Rightarrow> 'j cache \<Rightarrow> string \<Rightarrow> string \<Rightarrow> int \<Rightarrow>
     (client_error + 'j payload) \<times> 'j cache \<times> api_request list" where
  "getTimeSeries w cache frm to days =
     (let cacheKey = ''timeseries_'' @ frm @ ''_'' @ to @ ''_'' @ number_string days in
      case cache_get cache cacheKey (w_now w) of
        Some d \<Rightarrow> (Inr d, cache, [])
      | None \<Rightarrow>
          let rq = TimeseriesRequest (toUpperCase frm) (toUpperCase to) days in
          (case request (w_net w) of
             Some d \<Rightarrow>
               (Inr (Backend d),
                cache(cacheKey \<mapsto> \<lparr>data = Backend d, timestamp = w_later w\<rparr>),
                [rq])
           | None \<Rightarrow>
               let fromUpper = toUpperCase frm;
                   toUpper = toUpperCase to
               in (case (map_of fallbackRates fromUpper, map_of fallbackRates toUpper) of
                     (Some rf, Some rt) \<Rightarrow>
                       if rf = 0 \<or> rt = 0 then (Inl UnsupportedCurrency, cache, [rq])
                       else
                         let baseRate = rt / rf;
                             rates = fallback_loop (w_random w) (w_later w) (w_offset w) baseRate
                                       days [];
                             result = Series \<lparr>ts_from = fromUpper, ts_to = toUpper,
                                              ts_rates = rates, ts_fallback = True\<rparr>
                         in (Inr result,
                             cache(cacheKey \<mapsto> \<lparr>data = result, timestamp = w_later w\<rparr>),
                             [rq])
                   | _ \<Rightarrow> (Inl UnsupportedCurrency, cache, [rq]))))"

subsection \<open>History in the browser\<close>

text \<open>
  The item \<^verbatim>\<open>currency_history\<close> of \<^verbatim>\<open>localStorage\<close>: absent, unparsable (\<^verbatim>\<open>JSON.parse\<close>
  throws), or an array of records. The client stores whatever record it is given.
\<close>

datatype 'r storage_item = NoItem | Unparsable | Item "'r list"

definition getHistoryFromStorage :: "'r storage_item \<Rightarrow> 'r list" where
  "getHistoryFromStorage s = (case s of NoItem \<Rightarrow> [] | Unparsable \<Rightarrow> [] | Item h \<Rightarrow> h)"

text \<open>\<^verbatim>\<open>history.splice(50)\<close> removes every element from index 50 on.\<close>

definition saveHistoryToStorage :: "'r storage_item \<Rightarrow> 'r \<Rightarrow> 'r storage_item" where
  "saveHistoryToStorage s record =
     (let history = getHistoryFromStorage s;
          history = record # history;
          history = (if length history > 50 then take 50 history else history)
      in Item history)"

definition clearHistoryFromStorage :: "'r storage_item \<Rightarrow> 'r storage_item" where
  "clearHistoryFromStorage s = NoItem"

text \<open>
  The body of the back end's answer to \<^verbatim>\<open>GET history.php\<close>, as \<^verbatim>\<open>getHistory\<close> reads it:
  \<^verbatim>\<open>null\<close> (reading \<^verbatim>\<open>data.history\<close> throws, and the \<^verbatim>\<open>catch\<close> takes over), or an object
  whose \<^verbatim>\<open>history\<close> is an array or is missing or falsy.
\<close>

datatype 'r history_json = JsonNull | JsonObject "'r list option"

definition getHistory ::
  "'r history_json fetch_result \<Rightarrow> 'r storage_item \<Rightarrow> (client_error + 'r list) \<times> api_request list" where
  "getHistory net storage =
     (case request net of
        Some (JsonObject history) \<Rightarrow>
          (Inr (case history of Some h \<Rightarrow> h | None \<Rightarrow> []), [HistoryRequest])
      | Some JsonNull \<Rightarrow> (Inr (getHistoryFromStorage storage), [HistoryRequest])
      | None \<Rightarrow> (Inr (getHistoryFromStorage storage), [HistoryRequest]))"

section \<open>The server endpoints\<close>

text \<open>
  A cache file: its content (\<open>None\<close> when \<^verbatim>\<open>file_get_contents\<close> gives an empty or falsy
  string) and its modification time. The cache files of an endpoint are given by the
  hash in the file's name; each endpoint has its own file-name prefix, hence its own
  map.
\<close>

record 'a cache_file =
  content :: "'a option"
  mtime :: int

type_synonym 'a cache_files = "string \<rightharpoonup> 'a cache_file"

text \<open>
  The cache check of the three caching endpoints: \<^verbatim>\<open>file_exists($cacheFile)\<close> and
  \<^verbatim>\<open>(time() - filemtime($cacheFile)) < $cacheTime\<close>, then \<^verbatim>\<open>if ($cachedData)\<close>.
\<close>

definition cache_read :: "'a cache_file option \<Rightarrow> int \<Rightarrow> int \<Rightarrow> 'a option" where
  "cache_read cacheFile now cacheTime =
     (case cacheFile of
        None \<Rightarrow> None
      | Some f \<Rightarrow> if now - mtime f < cacheTime then content f else None)"

text \<open>
  Two functions of PHP that the endpoints use for the name of a cache file: \<^verbatim>\<open>md5\<close>, and
  the rendering of a float as a string (in \<^verbatim>\<open>$from . $to . $amount\<close>).
\<close>

record php_lib =
  md5 :: "string \<Rightarrow> string"
  strval :: "rat \<Rightarrow> string"

text \<open>
  The answer of the external API: \<^verbatim>\<open>file_get_contents\<close> returned \<^verbatim>\<open>false\<close>, the body is
  not JSON, or the decoded data.
\<close>

datatype 'u answer = NoResponse | NotJson | Answer 'u

text \<open>
  What one request reads from its environment: \<^verbatim>\<open>time()\<close> at the cache check, the clock
  when the response is built (\<^verbatim>\<open>date('c')\<close>, and the modification time of a file written
  then), the current day (\<^verbatim>\<open>new DateTime()\<close>, a day number of the server's calendar, on
  which \<^verbatim>\<open>sub\<close> and \<^verbatim>\<open>format\<close> both work), the answer of the external API, and
  \<^verbatim>\<open>mt_rand(-50, 50)\<close> in the loop iteration with counter \<open>i\<close>.
\<close>

record 'u server_env =
  s_time :: int
  s_done :: int
  s_today :: int
  s_upstream :: "'u answer"
  s_mt_rand :: "int \<Rightarrow> int"

text \<open>The calls to the external API, by endpoint and query parameters.\<close>

datatype upstream_request =
    UpstreamConvert string string rat
  | UpstreamSymbols
  | UpstreamTimeseries int int string string

subsection \<open>\<^verbatim>\<open>convert.php\<close>\<close>

text \<open>
  The \<^verbatim>\<open>amount\<close> parameter as PHP sees it: the empty string (also when the parameter is
  absent), the string \<^verbatim>\<open>"0"\<close>, or any other string, given by the number \<^verbatim>\<open>floatval\<close> reads
  from it. The first two are the values \<^verbatim>\<open>empty\<close> accepts.
\<close>

datatype amount_param = EmptyString | ZeroString | Number rat

definition amount_empty :: "amount_param \<Rightarrow> bool" where
  "amount_empty a = (case a of EmptyString \<Rightarrow> True | ZeroString \<Rightarrow> True | Number v \<Rightarrow> False)"

definition floatval :: "amount_param \<Rightarrow> rat" where
  "floatval a = (case a of EmptyString \<Rightarrow> 0 | ZeroString \<Rightarrow> 0 | Number v \<Rightarrow> v)"

text \<open>
  The raw parameter as an operand of \<^verbatim>\<open>*\<close>: the empty string is not numeric (PHP 8 throws
  a \<^verbatim>\<open>TypeError\<close>, which no \<^verbatim>\<open>catch (Exception $e)\<close> catches).
\<close>

definition raw_operand :: "amount_param \<Rightarrow> rat option" where
  "raw_operand a = (case a of EmptyString \<Rightarrow> None | ZeroString \<Rightarrow> Some 0 | Number v \<Rightarrow> Some v)"

record convert_query =
  q_from :: string
  q_to :: string
  q_amount :: amount_param

text \<open>The decoded answer of the external \<^verbatim>\<open>/convert\<close>.\<close>

record convert_data =
  u_success :: bool
  u_from :: string
  u_to :: string
  u_amount :: rat
  u_result :: rat
  u_rate :: rat

text \<open>
  The response: a conversion (status 200), the error object of the unsupported-currency
  branch (status 400; it has the keys \<^verbatim>\<open>success\<close>, \<^verbatim>\<open>error\<close> and \<^verbatim>\<open>timestamp\<close> only), or no
  response at all after an uncaught \<^verbatim>\<open>TypeError\<close>.
\<close>

datatype convert_reply = ConvertOk conversion | ConvertUnsupported | ConvertFatal

definition php_rates :: "(string \<times> rat) list" where
  "php_rates =
     [(''USD'', 1), (''EUR'', 85 / 100), (''GBP'', 73 / 100), (''JPY'', 110),
      (''CHF'', 92 / 100), (''CAD'', 125 / 100), (''AUD'', 135 / 100), (''CNY'', 645 / 100),
      (''RUB'', 75), (''INR'', 74), (''BRL'', 52 / 10), (''KRW'', 1180),
      (''MXN'', 20), (''SGD'', 135 / 100), (''HKD'', 78 / 10), (''NOK'', 85 / 10),
      (''SEK'', 87 / 10), (''DKK'', 63 / 10), (''PLN'', 39 / 10), (''CZK'', 215 / 10)]"

text \<open>
  The \<^verbatim>\<open>catch\<close> block of \<^verbatim>\<open>convert.php\<close>, with the values \<^verbatim>\<open>$from\<close>, \<^verbatim>\<open>$to\<close> and \<^verbatim>\<open>$amount\<close>
  have when the exception is thrown.
\<close>

definition convert_catch :: "string \<Rightarrow> string \<Rightarrow> rat option \<Rightarrow> int \<Rightarrow> convert_reply" where
  "convert_catch frm to amount done =
     (case (map_of php_rates frm, map_of php_rates to) of
        (Some rf, Some rt) \<Rightarrow>
          (case amount of
             None \<Rightarrow> ConvertFatal
           | Some a \<Rightarrow>
               let rate = rt / rf;
                   result = a * rate
               in ConvertOk
                    \<lparr>c_success = True, c_from = frm, c_to = to, c_amount = a,
                     c_result = php_round result 2, c_rate = php_round rate 6,
                     c_date = done, c_cached = Some False, c_fallback = Some True\<rparr>)
      | _ \<Rightarrow> ConvertUnsupported)"

text \<open>
  \<^verbatim>\<open>convert.php\<close>. The result is the response, the cache files afterwards and the
  calls to the external API. Every \<^verbatim>\<open>throw\<close> of the \<^verbatim>\<open>try\<close> block lands in the \<^verbatim>\<open>catch\<close>
  block, the three checks of the parameters included.
\<close>

definition convert_php ::
  "php_lib \<Rightarrow> convert_data server_env \<Rightarrow> conversion cache_files \<Rightarrow> convert_query \<Rightarrow>
     convert_reply \<times> conversion cache_files \<times> upstream_request list" where
  "convert_php php e cache q =
     (if php_empty (q_from q) \<or> php_empty (q_to q) \<or> amount_empty (q_amount q)
      then (convert_catch (q_from q) (q_to q) (raw_operand (q_amount q)) (s_done e), cache, [])
      else
        let frm = strtoupper (trim (q_from q));
            to = strtoupper (trim (q_to q));
            amount = floatval (q_amount q)
        in if amount \<le> 0 then (convert_catch frm to (Some amount) (s_done e), cache, [])
           else if frm = to then (convert_catch frm to (Some amount) (s_done e), cache, [])
           else
             let cacheKey = md5 php (frm @ to @ strval php amount);
                 cacheTime = 300
             in case cache_read (cache cacheKey) (s_time e) cacheTime of
                  Some cached \<Rightarrow> (ConvertOk (cached\<lparr>c_cached := Some True\<rparr>), cache, [])
                | None \<Rightarrow>
                    let rq = UpstreamConvert frm to amount in
                    (case s_upstream e of
                       NoResponse \<Rightarrow> (convert_catch frm to (Some amount) (s_done e), cache, [rq])
                     | NotJson \<Rightarrow> (convert_catch frm to (Some amount) (s_done e), cache, [rq])
                     | Answer d \<Rightarrow>
                         if \<not> u_success d
                         then (convert_catch frm to (Some amount) (s_done e), cache, [rq])
                         else
                           let result =
                                 \<lparr>c_success = True, c_from = u_from d, c_to = u_to d,
                                  c_amount = u_amount d, c_result = u_result d,
                                  c_rate = u_rate d, c_date = s_done e,
                                  c_cached = Some False, c_fallback = None\<rparr>
                           in (ConvertOk result,
                               cache(cacheKey \<mapsto> \<lparr>content = Some result, mtime = s_done e\<rparr>),
                               [rq])))"

subsection \<open>\<^verbatim>\<open>symbols.php\<close>\<close>

record symbols_upstream =
  su_success :: bool
  su_symbols :: "(string \<times> symbol_info) list"

record symbols_reply =
  sr_success :: bool
  sr_symbols :: "(string \<times> symbol_info) list"
  sr_cached :: bool
  sr_timestamp :: int
  sr_fallback :: "bool option"

definition php_fallbackSymbols :: "(string \<times> symbol_info) list" where
  "php_fallbackSymbols =
     [(''USD'', \<lparr>description = ''US Dollar'', symbol = ''$''\<rparr>),
      (''EUR'', \<lparr>description = ''Euro'', symbol = [CHR 0xE2, CHR 0x82, CHR 0xAC]\<rparr>),
      (''GBP'', \<lparr>description = ''British Pound'', symbol = [CHR 0xC2, CHR 0xA3]\<rparr>),
      (''JPY'', \<lparr>description = ''Japanese Yen'', symbol = [CHR 0xC2, CHR 0xA5]\<rparr>),
      (''CHF'', \<lparr>description = ''Swiss Franc'', symbol = ''CHF''\<rparr>),
      (''CAD'', \<lparr>description = ''Canadian Dollar'', symbol = ''C$''\<rparr>),
      (''AUD'', \<lparr>description = ''Australian Dollar'', symbol = ''A$''\<rparr>),
      (''CNY'', \<lparr>description = ''Chinese Yuan'', symbol = [CHR 0xC2, CHR 0xA5]\<rparr>),
      (''RUB'', \<lparr>description = ''Russian Ruble'', symbol = [CHR 0xE2, CHR 0x82, CHR 0xBD]\<rparr>),
      (''INR'', \<lparr>description = ''Indian Rupee'', symbol = [CHR 0xE2, CHR 0x82, CHR 0xB9]\<rparr>),
      (''BRL'', \<lparr>description = ''Brazilian Real'', symbol = ''R$''\<rparr>),
      (''KRW'', \<lparr>description = ''South Korean Won'', symbol = [CHR 0xE2, CHR 0x82, CHR 0xA9]\<rparr>),
      (''MXN'', \<lparr>description = ''Mexican Peso'', symbol = ''$''\<rparr>),
      (''SGD'', \<lparr>description = ''Singapore Dollar'', symbol = ''S$''\<rparr>),
      (''HKD'', \<lparr>description = ''Hong Kong Dollar'', symbol = ''HK$''\<rparr>),
      (''NOK'', \<lparr>description = ''Norwegian Krone'', symbol = ''kr''\<rparr>),
      (''SEK'', \<lparr>description = ''Swedish Krona'', symbol = ''kr''\<rparr>),
      (''DKK'', \<lparr>description = ''Danish Krone'', symbol = ''kr''\<rparr>),
      (''PLN'', \<lparr>description = ''Polish Zloty'', symbol = ''z'' @ [CHR 0xC5, CHR 0x82]\<rparr>),
      (''CZK'', \<lparr>description = ''Czech Koruna'', symbol = ''K'' @ [CHR 0xC4, CHR 0x8D]\<rparr>),
      (''TL'', \<lparr>description = ''Turkish Lira'', symbol = [CHR 0xE2, CHR 0x82, CHR 0xBA]\<rparr>),
      (''UA'', \<lparr>description = ''Ukrainian Hryvnia'', symbol = [CHR 0xE2, CHR 0x82, CHR 0xB4]\<rparr>)]"

text \<open>The only cache file of this endpoint is \<^verbatim>\<open>cache/symbols.json\<close>.\<close>

definition symbols_php ::
  "symbols_upstream server_env \<Rightarrow> symbols_reply cache_file option \<Rightarrow>
     symbols_reply \<times> symbols_reply cache_file option \<times> upstream_request list" where
  "symbols_php e cacheFile =
     (let cacheTime = 3600 in
      case cache_read cacheFile (s_time e) cacheTime of
        Some cachedData \<Rightarrow> (cachedData, cacheFile, [])
      | None \<Rightarrow>
          let fallback =
                \<lparr>sr_success = True, sr_symbols = php_fallbackSymbols, sr_cached = False,
                 sr_timestamp = s_done e, sr_fallback = Some True\<rparr>
          in (case s_upstream e of
                NoResponse \<Rightarrow> (fallback, cacheFile, [UpstreamSymbols])
              | NotJson \<Rightarrow> (fallback, cacheFile, [UpstreamSymbols])
              | Answer d \<Rightarrow>
                  if \<not> su_success d then (fallback, cacheFile, [UpstreamSymbols])
                  else
                    let result =
                          \<lparr>sr_success = True, sr_symbols = su_symbols d, sr_cached = False,
                           sr_timestamp = s_done e, sr_fallback = None\<rparr>
                    in (result, Some \<lparr>content = Some result, mtime = s_done e\<rparr>,
                        [UpstreamSymbols])))"

subsection \<open>\<^verbatim>\<open>timeseries.php\<close>\<close>

record series_query =
  sq_from :: string
  sq_to :: string
  sq_days :: int

text \<open>
  The decoded answer of the external \<^verbatim>\<open>/timeseries\<close>: \<open>tu_rates\<close> is \<open>None\<close> when the key
  \<^verbatim>\<open>rates\<close> is missing or is not an array; else it maps a date to the rates of that day.
\<close>

record series_upstream =
  tu_success :: bool
  tu_rates :: "(int \<times> (string \<times> rat) list) list option"

record series_result =
  r_from :: string
  r_to :: string
  r_start_date :: int
  r_end_date :: int
  r_days :: int
  r_rates :: "(int \<times> rat) list"
  r_count :: nat
  r_cached :: bool

datatype series_error = MissingParameters | UpstreamFailed

text \<open>The response: the series (status 200) or the error object (status 400).\<close>

datatype series_reply = SeriesOk series_result | SeriesError series_error

text \<open>
  \<^verbatim>\<open>generateMockData\<close>: the loop \<^verbatim>\<open>for ($i = $days; $i >= 0; $i--)\<close>, then the function. Each
  day's rate starts from the rate of the day before.
\<close>

function mock_loop ::
  "(int \<Rightarrow> int) \<Rightarrow> int \<Rightarrow> int \<Rightarrow> rat \<Rightarrow> (int \<times> rat) list \<Rightarrow> (int \<times> rat) list" where
  "mock_loop mt_rand today i baseRate rates =
     (if i \<ge> 0 then
        let dateStr = today - i;
            variation = of_int (mt_rand i) / 1000;
            rate = baseRate * (1 + variation)
        in mock_loop mt_rand today (i - 1) rate (AList.update dateStr (php_round rate 6) rates)
      else rates)"
  by pat_completeness auto
termination
  by (relation "measure (\<lambda>(mt_rand, today, i, baseRate, rates). nat (i + 1))") auto

declare mock_loop.simps [simp del]

definition generateMockData :: "(int \<Rightarrow> int) \<Rightarrow> int \<Rightarrow> int \<Rightarrow> (int \<times> rat) list" where
  "generateMockData mt_rand today days = mock_loop mt_rand today days 1 []"

text \<open>The \<^verbatim>\<open>foreach\<close> over the upstream rates, keeping the days that quote \<^verbatim>\<open>$to\<close>.\<close>

definition collect_rates :: "string \<Rightarrow> (int \<times> (string \<times> rat) list) list \<Rightarrow> (int \<times> rat) list" where
  "collect_rates to upstream_rates =
     fold (\<lambda>(date, dayRates) rates.
             case map_of dayRates to of
               Some v \<Rightarrow> AList.update date v rates
             | None \<Rightarrow> rates)
          upstream_rates []"

definition timeseries_php ::
  "php_lib \<Rightarrow> series_upstream server_env \<Rightarrow> series_result cache_files \<Rightarrow> series_query \<Rightarrow>
     series_reply \<times> series_result cache_files \<times> upstream_request list" where
  "timeseries_php php e cache q =
     (if php_empty (sq_from q) \<or> php_empty (sq_to q)
      then (SeriesError MissingParameters, cache, [])
      else
        let frm = strtoupper (trim (sq_from q));
            to = strtoupper (trim (sq_to q));
            days = max 1 (min (sq_days q) 365);
            cacheKey = md5 php (frm @ to @ number_string days);
            cacheTime = 1800
        in case cache_read (cache cacheKey) (s_time e) cacheTime of
             Some cached \<Rightarrow> (SeriesOk (cached\<lparr>r_cached := True\<rparr>), cache, [])
           | None \<Rightarrow>
               let endDate = s_today e;
                   startDate = s_today e - days;
                   rq = UpstreamTimeseries startDate endDate frm to
               in (case s_upstream e of
                     NoResponse \<Rightarrow> (SeriesError UpstreamFailed, cache, [rq])
                   | NotJson \<Rightarrow> (SeriesError UpstreamFailed, cache, [rq])
                   | Answer d \<Rightarrow>
                       if \<not> tu_success d then (SeriesError UpstreamFailed, cache, [rq])
                       else
                         let rates = (case tu_rates d of
                                        Some rs \<Rightarrow> collect_rates to rs
                                      | None \<Rightarrow> []);
                             rates = (if rates = []
                                      then generateMockData (s_mt_rand e) (s_today e) days
                                      else rates);
                             result =
                               \<lparr>r_from = frm, r_to = to, r_start_date = startDate,
                                r_end_date = endDate, r_days = days, r_rates = rates,
                                r_count = length rates, r_cached = False\<rparr>
                         in (SeriesOk result,
                             cache(cacheKey \<mapsto> \<lparr>content = Some result, mtime = s_done e\<rparr>),
                             [rq])))"

subsection \<open>\<^verbatim>\<open>history.php\<close>\<close>

record history_record =
  h_id :: string
  h_from :: string
  h_to :: string
  h_amount :: rat
  h_result :: rat
  h_rate :: rat
  h_date :: string
  h_timestamp :: int

text \<open>
  The decoded JSON body of a POST: a field is \<open>None\<close> when the key is missing or null
  (\<^verbatim>\<open>isset\<close> is false for both). Numeric fields hold what \<^verbatim>\<open>floatval\<close> gives. A body that
  is not JSON, or is empty, is \<open>None\<close> as a whole.
\<close>

record post_input =
  in_from :: "string option"
  in_to :: "string option"
  in_amount :: "rat option"
  in_result :: "rat option"
  in_rate :: "rat option"
  in_date :: "string option"

text \<open>
  What one request to \<^verbatim>\<open>history.php\<close> reads from its environment: \<^verbatim>\<open>uniqid()\<close>, \<^verbatim>\<open>time()\<close>,
  \<^verbatim>\<open>date('c')\<close>, and whether \<^verbatim>\<open>file_put_contents\<close> and \<^verbatim>\<open>unlink\<close> succeed.
\<close>

record env =
  e_uniqid :: string
  e_time :: int
  e_date :: string
  e_write_ok :: bool
  e_unlink_ok :: bool

datatype history_error =
    InvalidJson
  | MissingField string
  | EmptyCodes
  | NonPositive
  | SaveFailed
  | DeleteFailed

text \<open>
  The data file \<^verbatim>\<open>data/history.json\<close>: \<open>None\<close> when it does not exist, else the decoded
  list (an empty or undecodable file reads as the empty list, as \<^verbatim>\<open>?: []\<close> does).
\<close>

type_synonym data_file = "history_record list option"

definition load_history :: "data_file \<Rightarrow> history_record list" where
  "load_history f = (case f of None \<Rightarrow> [] | Some h \<Rightarrow> h)"

text \<open>\<^verbatim>\<open>array_slice($a, 0, $n)\<close>.\<close>

definition array_slice0 :: "'a list \<Rightarrow> nat \<Rightarrow> 'a list" where
  "array_slice0 xs n = take n xs"

record get_response =
  g_success :: bool
  g_history :: "history_record list"
  g_count :: nat

definition handleGetHistory :: "data_file \<Rightarrow> get_response" where
  "handleGetHistory dataFile =
     (let history = load_history dataFile;
          history = array_slice0 history 10
      in \<lparr>g_success = True, g_history = history, g_count = length history\<rparr>)"

text \<open>The first required field that is not set, in the order of \<^verbatim>\<open>$requiredFields\<close>.\<close>

definition missing_field :: "post_input \<Rightarrow> string option" where
  "missing_field i =
     (if in_from i = None then Some ''from''
      else if in_to i = None then Some ''to''
      else if in_amount i = None then Some ''amount''
      else if in_result i = None then Some ''result''
      else if in_rate i = None then Some ''rate''
      else None)"

definition newRecord :: "env \<Rightarrow> post_input \<Rightarrow> history_record" where
  "newRecord e i =
     \<lparr>h_id = e_uniqid e,
      h_from = strtoupper (trim (the (in_from i))),
      h_to = strtoupper (trim (the (in_to i))),
      h_amount = the (in_amount i),
      h_result = the (in_result i),
      h_rate = the (in_rate i),
      h_date = (case in_date i of Some d \<Rightarrow> d | None \<Rightarrow> e_date e),
      h_timestamp = e_time e\<rparr>"

record post_response =
  p_record :: history_record
  p_total_records :: nat

text \<open>
  \<^verbatim>\<open>handlePostHistory\<close>: the result is the exception thrown, or the new content of the
  data file with the response. \<open>newRecord\<close> is only reached with all five required
  fields set.
\<close>

definition handlePostHistory ::
  "data_file \<Rightarrow> nat \<Rightarrow> env \<Rightarrow> post_input option \<Rightarrow>
     history_error + (data_file \<times> post_response)" where
  "handlePostHistory dataFile maxRecords e input =
     (case input of
        None \<Rightarrow> Inl InvalidJson
      | Some i \<Rightarrow>
          (case missing_field i of
             Some f \<Rightarrow> Inl (MissingField f)
           | None \<Rightarrow>
               let r = newRecord e i in
               if php_empty (h_from r) \<or> php_empty (h_to r) then Inl EmptyCodes
               else if h_amount r \<le> 0 \<or> h_result r \<le> 0 \<or> h_rate r \<le> 0 then Inl NonPositive
               else
                 let history = load_history dataFile;
                     history = r # history;
                     history = (if length history > maxRecords
                                then array_slice0 history maxRecords else history)
                 in if \<not> e_write_ok e then Inl SaveFailed
                    else Inr (Some history,
                              \<lparr>p_record = r, p_total_records = length history\<rparr>)))"

definition handleDeleteHistory :: "data_file \<Rightarrow> env \<Rightarrow> history_error + data_file" where
  "handleDeleteHistory dataFile e =
     (case dataFile of
        None \<Rightarrow> Inr None
      | Some h \<Rightarrow> if \<not> e_unlink_ok e then Inl DeleteFailed else Inr None)"

text \<open>
  The script: the \<^verbatim>\<open>switch\<close> on the request method inside \<^verbatim>\<open>try\<close>; an exception of a
  handler becomes the response with status 500 and leaves the data file as it was.
\<close>

datatype http_method = GET | POST | DELETE

datatype history_reply =
    GetReply get_response
  | PostReply post_response
  | DeleteReply
  | ErrorReply history_error

definition history_php ::
  "http_method \<Rightarrow> data_file \<Rightarrow> env \<Rightarrow> post_input option \<Rightarrow> history_reply \<times> data_file" where
  "history_php m dataFile e input =
     (let maxRecords = 50 in
      case m of
        GET \<Rightarrow> (GetReply (handleGetHistory dataFile), dataFile)
      | POST \<Rightarrow>
          (case handlePostHistory dataFile maxRecords e input of
             Inl err \<Rightarrow> (ErrorReply err, dataFile)
           | Inr (f, resp) \<Rightarrow> (PostReply resp, f))
      | DELETE \<Rightarrow>
          (case handleDeleteHistory dataFile e of
             Inl err \<Rightarrow> (ErrorReply err, dataFile)
           | Inr f \<Rightarrow> (DeleteReply, f)))"

text \<open>
  A sequence of POST requests against the data file, each with its own environment. A
  request that throws leaves the file as it was.
\<close>

fun post_all :: "data_file \<Rightarrow> nat \<Rightarrow> (env \<times> post_input option) list \<Rightarrow> data_file" where
  "post_all f n [] = f"
| "post_all f n ((e, i) # rest) =
     (case handlePostHistory f n e i of
        Inl err \<Rightarrow> post_all f n rest
      | Inr (f', resp) \<Rightarrow> post_all f' n rest)"

text \<open>A request that passes every check of \<^verbatim>\<open>handlePostHistory\<close> and whose write succeeds.\<close>

definition accepted :: "env \<times> post_input option \<Rightarrow> bool" where
  "accepted x =
     (case snd x of
        None \<Rightarrow> False
      | Some i \<Rightarrow>
          missing_field i = None \<and>
          \<not> php_empty (strtoupper (trim (the (in_from i)))) \<and>
          \<not> php_empty (strtoupper (trim (the (in_to i)))) \<and>
          0 < the (in_amount i) \<and> 0 < the (in_result i) \<and> 0 < the (in_rate i) \<and>
          e_write_ok (fst x))"

text \<open>The record such a request adds.\<close>

definition made :: "env \<times> post_input option \<Rightarrow> history_record" where
  "made x = newRecord (fst x) (the (snd x))"

section \<open>Notions of the specification\<close>

text \<open>
  \<open>y\<close> is \<open>x\<close> rounded to \<open>p\<close> decimal places: \<open>y\<close> has at most \<open>p\<close> decimals and lies
  within half a unit of the \<open>p\<close>-th decimal place of \<open>x\<close>.
\<close>

definition rounded_to :: "nat \<Rightarrow> rat \<Rightarrow> rat \<Rightarrow> bool" where
  "rounded_to p x y =
     (of_int \<lfloor>y * 10 ^ p\<rfloor> = y * 10 ^ p \<and> \<bar>y - x\<bar> * (2 * 10 ^ p) \<le> 1)"

text \<open>
  The external API fails: no response, a body that is not JSON, or an answer whose
  \<^verbatim>\<open>success\<close> (read by \<open>ok\<close>) is not true. These are the three \<^verbatim>\<open>throw\<close>s after the call.
\<close>

definition failed :: "('u \<Rightarrow> bool) \<Rightarrow> 'u answer \<Rightarrow> bool" where
  "failed ok a = (case a of NoResponse \<Rightarrow> True | NotJson \<Rightarrow> True | Answer d \<Rightarrow> \<not> ok d)"

text \<open>
  A request to \<^verbatim>\<open>convert.php\<close> that passes the checks of its parameters: all three are
  given, the amount is positive, and the two codes, trimmed and in upper case, differ.
\<close>

definition passes_checks :: "convert_query \<Rightarrow> bool" where
  "passes_checks q =
     (\<not> php_empty (q_from q) \<and> \<not> php_empty (q_to q) \<and> \<not> amount_empty (q_amount q) \<and>
      0 < floatval (q_amount q) \<and>
      strtoupper (trim (q_from q)) \<noteq> strtoupper (trim (q_to q)))"

text \<open>The hash in the name of the cache file of a request to \<^verbatim>\<open>convert.php\<close>.\<close>

definition convert_key :: "php_lib \<Rightarrow> convert_query \<Rightarrow> string" where
  "convert_key php q =
     md5 php (strtoupper (trim (q_from q)) @ strtoupper (trim (q_to q)) @
              strval php (floatval (q_amount q)))"

text \<open>
  The request is served by the \<^verbatim>\<open>catch\<close> block of \<^verbatim>\<open>convert.php\<close>: a check of the parameters
  throws, or no fresh cache file is found and the external API fails.
\<close>

definition takes_fallback ::
  "php_lib \<Rightarrow> convert_data server_env \<Rightarrow> conversion cache_files \<Rightarrow> convert_query \<Rightarrow> bool" where
  "takes_fallback php e cache q =
     (if passes_checks q
      then cache_read (cache (convert_key php q)) (s_time e) 300 = None \<and>
           failed u_success (s_upstream e)
      else True)"

text \<open>The key of the client's cache entry of a time series.\<close>

definition series_cache_key :: "string \<Rightarrow> string \<Rightarrow> int \<Rightarrow> string" where
  "series_cache_key frm to days =
     ''timeseries_'' @ frm @ ''_'' @ to @ ''_'' @ number_string days"

text \<open>The hash in the name of the cache file of a request to \<^verbatim>\<open>timeseries.php\<close>.\<close>

definition series_key :: "php_lib \<Rightarrow> series_query \<Rightarrow> string" where
  "series_key php q =
     md5 php (strtoupper (trim (sq_from q)) @ strtoupper (trim (sq_to q)) @
              number_string (max 1 (min (sq_days q) 365)))"

text \<open>
  The three parts of what an operation gives: the value returned, the cache it leaves,
  and the requests it issued to its inner source.
\<close>

definition returned :: "'r \<times> 's \<times> 'q list \<Rightarrow> 'r" where
  "returned x = fst x"

definition cache_after :: "'r \<times> 's \<times> 'q list \<Rightarrow> 's" where
  "cache_after x = fst (snd x)"

definition requests :: "'r \<times> 's \<times> 'q list \<Rightarrow> 'q list" where
  "requests x = snd (snd x)"





section \<open>Sample inputs\<close>

definition sample_post :: "nat \<Rightarrow> env \<times> post_input option" where
  "sample_post k =
     (\<lparr>e_uniqid = ''u'', e_time = int k, e_date = ''d'', e_write_ok = True, e_unlink_ok = True\<rparr>,
      Some \<lparr>in_from = Some ''usd'', in_to = Some '' eur '', in_amount = Some 100,
            in_result = Some 85, in_rate = Some (85 / 100), in_date = None\<rparr>)"

text \<open>A stored history of \<open>n\<close> records, the newest first.\<close>

definition sample_history :: "nat \<Rightarrow> history_record list" where
  "sample_history n = rev (map (\<lambda>k. made (sample_post k)) [0..<n])"

text \<open>A world in which the request fails, and one in which the back end answers.\<close>

definition offline :: "nat world" where
  "offline = \<lparr>w_net = Rejected, w_now = 1000, w_later = 1200, w_offset = (\<lambda>i. 0),
              w_random = (\<lambda>i. 1 / 2)\<rparr>"

definition online :: "nat world" where
  "online = \<lparr>w_net = Response True (Some 7), w_now = 1000, w_later = 1200, w_offset = (\<lambda>i. 0),
             w_random = (\<lambda>i. 1 / 2)\<rparr>"

text \<open>Stand-ins for the two library functions, and a server whose external API is down.\<close>

definition sample_php :: php_lib where
  "sample_php = \<lparr>md5 = (\<lambda>s. s), strval = (\<lambda>x. ''n'')\<rparr>"

definition upstream_down :: "int \<Rightarrow> 'u server_env" where
  "upstream_down t = \<lparr>s_time = t, s_done = t + 1, s_today = 20000, s_upstream = NoResponse,
                       s_mt_rand = (\<lambda>i. 0)\<rparr>"

text \<open>A server with no cache file, and requests for an unknown code.\<close>

definition no_cache :: "conversion cache_files" where
  "no_cache = Map.empty"

definition unknown_to_usd :: convert_query where
  "unknown_to_usd = \<lparr>q_from = ''XYZ'', q_to = ''USD'', q_amount = Number 10\<rparr>"

definition unknown_to_itself :: convert_query where
  "unknown_to_itself = \<lparr>q_from = ''XYZ'', q_to = ''XYZ'', q_amount = Number 10\<rparr>"

definition rub_to_usd :: convert_query where
  "rub_to_usd = \<lparr>q_from = '' rub'', q_to = ''usd'', q_amount = Number 100\<rparr>"

definition usd_to_usd :: convert_query where
  "usd_to_usd = \<lparr>q_from = ''usd'', q_to = ''USD '', q_amount = Number (5 / 2)\<rparr>"

text \<open>A server whose external API answers, for a request from USD to EUR.\<close>

definition upstream_up :: "int \<Rightarrow> convert_data server_env" where
  "upstream_up t =
     \<lparr>s_time = t, s_done = t + 1, s_today = 20000,
      s_upstream = Answer \<lparr>u_success = True, u_from = ''USD'', u_to = ''EUR'', u_amount = 100,
                            u_result = 92, u_rate = 92 / 100\<rparr>,
      s_mt_rand = (\<lambda>i. 0)\<rparr>"

definition usd_to_eur :: convert_query where
  "usd_to_eur = \<lparr>q_from = ''USD'', q_to = ''EUR'', q_amount = Number 100\<rparr>"

text \<open>
  A request for one week of USD to EUR, a server whose external API quotes the last day
  only, and a client with nothing in its cache.
\<close>

definition week :: series_query where
  "week = \<lparr>sq_from = ''USD'', sq_to = ''EUR'', sq_days = 7\<rparr>"







definition fresh_client :: "nat cache" where
  "fresh_client = Map.empty"


text \<open>
  A client whose cache holds the symbols and one time series, both stored at time 0; a
  world at \<open>t\<close> milliseconds in which the back end answers; the server's cache files of
  the three endpoints, written at time 0.
\<close>

definition client_cache :: "nat cache" where
  "client_cache =
     [''symbols'' \<mapsto> \<lparr>data = Backend 7, timestamp = 0\<rparr>,
      series_cache_key ''USD'' ''EUR'' 7 \<mapsto> \<lparr>data = Backend 8, timestamp = 0\<rparr>]"

definition at_ms :: "int \<Rightarrow> nat world" where
  "at_ms t = \<lparr>w_net = Response True (Some 9), w_now = t, w_later = t + 200, w_offset = (\<lambda>i. 0),
              w_random = (\<lambda>i. 1 / 2)\<rparr>"

definition stored_conversion :: conversion where
  "stored_conversion =
     \<lparr>c_success = True, c_from = ''USD'', c_to = ''EUR'', c_amount = 100, c_result = 92,
      c_rate = 92 / 100, c_date = 0, c_cached = Some False, c_fallback = None\<rparr>"

definition convert_dir :: "conversion cache_files" where
  "convert_dir =
     [convert_key sample_php usd_to_eur \<mapsto> \<lparr>content = Some stored_conversion, mtime = 0\<rparr>]"

definition stored_symbols :: symbols_reply where
  "stored_symbols =
     \<lparr>sr_success = True, sr_symbols = [], sr_cached = False, sr_timestamp = 0,
      sr_fallback = None\<rparr>"

definition symbols_file :: "symbols_reply cache_file" where
  "symbols_file = \<lparr>content = Some stored_symbols, mtime = 0\<rparr>"

definition stored_series :: series_result where
  "stored_series =
     \<lparr>r_from = ''USD'', r_to = ''EUR'', r_start_date = 19993, r_end_date = 20000, r_days = 7,
      r_rates = [(20000, 92 / 100)], r_count = 1, r_cached = False\<rparr>"

definition series_dir :: "series_result cache_files" where
  "series_dir = [series_key sample_php week \<mapsto> \<lparr>content = Some stored_series, mtime = 0\<rparr>]"

section \<open>Properties\<close>

subsection \<open>History log\<close>

lemma take_append_take: "take n (xs @ take n ys) = take n (xs @ ys)"
  by (simp add: min_def)

lemma handlePostHistory_accepted:
  "accepted (e, i) \<Longrightarrow>
     handlePostHistory f n e i =
       Inr (Some (take n (made (e, i) # load_history f)),
            \<lparr>p_record = made (e, i),
             p_total_records = length (take n (made (e, i) # load_history f))\<rparr>)"
  by (auto simp: handlePostHistory_def accepted_def made_def newRecord_def Let_def
        array_slice0_def split: option.splits)

lemma post_all_accepted:
  "\<forall>x \<in> set xs. accepted x \<Longrightarrow>
     xs \<noteq> [] \<Longrightarrow>
     post_all f n xs = Some (take n (rev (map made xs) @ load_history f))"
proof (induction xs arbitrary: f)
  case Nil
  then show ?case by simp
next
  case (Cons x xs)
  obtain e i where x: "x = (e, i)" by (cases x)
  from Cons.prems have acc: "accepted (e, i)" by (simp add: x)
  show ?case
  proof (cases "xs = []")
    case True
    then show ?thesis
      using handlePostHistory_accepted [OF acc] by (simp add: x)
  next
    case False
    have "post_all f n (x # xs) = post_all (Some (take n (made x # load_history f))) n xs"
      using handlePostHistory_accepted [OF acc] by (simp add: x)
    also have "\<dots> = Some (take n (rev (map made xs) @ take n (made x # load_history f)))"
      using Cons.IH [OF _ False] Cons.prems by (simp add: load_history_def)
    also have "take n (rev (map made xs) @ take n (made x # load_history f)) =
               take n (rev (map made xs) @ made x # load_history f)"
      by (rule take_append_take)
    finally show ?thesis by simp
  qed
qed

lemma saveHistoryToStorage_eq:
  "saveHistoryToStorage s r = Item (take 50 (r # getHistoryFromStorage s))"
  by (simp add: saveHistoryToStorage_def Let_def)

lemma save_all_storage:
  "rs \<noteq> [] \<Longrightarrow>
     foldl saveHistoryToStorage s rs = Item (take 50 (rev rs @ getHistoryFromStorage s))"
proof (induction rs arbitrary: s)
  case Nil
  then show ?case by simp
next
  case (Cons r rs)
  show ?case
  proof (cases "rs = []")
    case True
    then show ?thesis by (simp add: saveHistoryToStorage_eq)
  next
    case False
    have "foldl saveHistoryToStorage s (r # rs) =
          foldl saveHistoryToStorage (Item (take 50 (r # getHistoryFromStorage s))) rs"
      by (simp only: foldl.simps saveHistoryToStorage_eq)
    also have "\<dots> = Item (take 50 (rev rs @ take 50 (r # getHistoryFromStorage s)))"
      by (simp only: Cons.IH [OF False] getHistoryFromStorage_def storage_item.case)
    also have "take 50 (rev rs @ take 50 (r # getHistoryFromStorage s)) =
               take 50 (rev rs @ r # getHistoryFromStorage s)"
      by (rule take_append_take)
    finally show ?thesis by simp
  qed
qed

text \<open>
  Claim C8. The history log is bounded and first-in, first-out. From any starting
  content of the store, \<open>n + 5\<close> accepted appends to the server log capped at \<open>n\<close>
  (and \<open>50 + 5\<close> appends to the browser log, capped at 50) leave exactly the cap's
  number of records: the newest ones, newest first; the five oldest appended records
  (and every record of the starting content) are gone. One append prepends the new
  record and truncates to the cap.
\<close>

theorem history_bounded_fifo:
  "(list_all accepted xs \<and> length xs = n + 5 \<longrightarrow>
      post_all f n xs = Some (rev (drop 5 (map made xs))) \<and>
      length (rev (drop 5 (map made xs))) = n) \<and>
   (length rs = 50 + 5 \<longrightarrow>
      foldl saveHistoryToStorage s rs = Item (rev (drop 5 rs)) \<and>
      length (rev (drop 5 rs)) = 50) \<and>
   (accepted (e, i) \<longrightarrow>
      (\<exists>resp. handlePostHistory f n e i =
         Inr (Some (take n (made (e, i) # load_history f)), resp))) \<and>
   saveHistoryToStorage s r = Item (take 50 (r # getHistoryFromStorage s))"
proof (intro conjI impI)
  assume a: "list_all accepted xs \<and> length xs = n + 5"
  then have ne: "xs \<noteq> []" by auto
  from a have "\<forall>x \<in> set xs. accepted x" by (simp add: list_all_iff)
  from post_all_accepted [OF this ne, of f n]
  have "post_all f n xs = Some (take n (rev (map made xs) @ load_history f))" .
  also have "take n (rev (map made xs) @ load_history f) = take n (rev (map made xs))"
    using a by simp
  also have "\<dots> = rev (drop 5 (map made xs))"
    using a by (simp add: take_rev)
  finally show "post_all f n xs = Some (rev (drop 5 (map made xs)))" .
  show "length (rev (drop 5 (map made xs))) = n" using a by simp
next
  assume a: "length rs = 50 + 5"
  then have ne: "rs \<noteq> []" by auto
  have "foldl saveHistoryToStorage s rs = Item (take 50 (rev rs @ getHistoryFromStorage s))"
    by (rule save_all_storage [OF ne])
  also have "take 50 (rev rs @ getHistoryFromStorage s) = take 50 (rev rs)"
    using a by simp
  also have "\<dots> = rev (drop 5 rs)"
    using a by (simp add: take_rev)
  finally show "foldl saveHistoryToStorage s rs = Item (rev (drop 5 rs))" .
  show "length (rev (drop 5 rs)) = 50" using a by simp
next
  assume "accepted (e, i)"
  from handlePostHistory_accepted [OF this, of f n]
  show "\<exists>resp. handlePostHistory f n e i =
         Inr (Some (take n (made (e, i) # load_history f)), resp)" by blast
next
  show "saveHistoryToStorage s r = Item (take 50 (r # getHistoryFromStorage s))"
    by (rule saveHistoryToStorage_eq)
qed

lemma accepted_sample_post: "accepted (sample_post k)"
  by (simp add: accepted_def sample_post_def missing_field_def php_empty_def strtoupper_def
        trim_def is_trim_char_def upper_char_def)

theorem history_bounded_fifo_witness:
  "list_all accepted (map sample_post [0..<6]) \<and>
   length (map sample_post [0..<6]) = 1 + 5 \<and>
   post_all None 1 (map sample_post [0..<6]) = Some [made (sample_post 5)] \<and>
   length [0..<55::nat] = 50 + 5 \<and>
   foldl saveHistoryToStorage NoItem [0..<55::nat] = Item (rev [5..<55]) \<and>
   accepted (sample_post 0) \<and>
   (\<exists>resp. handlePostHistory None 1 (fst (sample_post 0)) (snd (sample_post 0)) =
        Inr (Some [made (sample_post 0)], resp))"
proof -
  have a: "list_all accepted (map sample_post [0..<6])"
    by (simp add: list_all_iff accepted_sample_post)
  have l: "length (map sample_post [0..<6]) = 1 + 5" by simp
  have u: "[5..<6] = [5::nat]" by (simp add: upt_conv_Cons)
  have d: "drop 5 (map made (map sample_post [0..<6])) = [made (sample_post 5)]"
    by (simp add: drop_map drop_upt u)
  have l2: "length [0..<55::nat] = 50 + 5" by simp
  have d2: "drop 5 [0..<55::nat] = [5..<55]" by (simp add: drop_upt)
  have acc: "accepted (fst (sample_post 0), snd (sample_post 0))"
    by (simp add: accepted_sample_post)
  note t = history_bounded_fifo [where xs = "map sample_post [0..<6]" and n = 1 and f = None
      and rs = "[0..<55::nat]" and s = NoItem and e = "fst (sample_post 0)"
      and i = "snd (sample_post 0)" and r = "0::nat"]
  from t a l d have 1: "post_all None 1 (map sample_post [0..<6]) = Some [made (sample_post 5)]"
    by simp
  from t l2 d2 have 2: "foldl saveHistoryToStorage NoItem [0..<55::nat] = Item (rev [5..<55])"
    by simp
  from t acc have 3: "\<exists>resp. handlePostHistory None 1 (fst (sample_post 0)) (snd (sample_post 0)) =
        Inr (Some [made (sample_post 0)], resp)"
    by (simp add: load_history_def)
  from a l 1 l2 2 acc 3 show ?thesis by simp
qed

subsection \<open>Listing the history\<close>

lemma handleGetHistory_eq:
  "handleGetHistory f =
     \<lparr>g_success = True, g_history = take 10 (load_history f),
      g_count = min 10 (length (load_history f))\<rparr>"
  by (simp add: handleGetHistory_def array_slice0_def Let_def min_def)

lemma length_sample_history: "length (sample_history n) = n"
  by (simp add: sample_history_def)

text \<open>
  Claim C9, as stated, fails: the server's list operation has no limit parameter and
  returns at most ten records. With eleven records stored, a request without a limit
  gets ten of them, and the client's \<^verbatim>\<open>getHistory\<close> over that answer gets the same ten.
\<close>

theorem history_list_counterexample:
  "length (sample_history 11) = 11 \<and>
   length (g_history (handleGetHistory (Some (sample_history 11)))) = 10 \<and>
   g_history (handleGetHistory (Some (sample_history 11))) \<noteq> sample_history 11"
proof -
  have l: "length (sample_history 11) = 11" by (rule length_sample_history)
  have g: "length (g_history (handleGetHistory (Some (sample_history 11)))) = 10"
    by (simp add: handleGetHistory_eq load_history_def l)
  have "g_history (handleGetHistory (Some (sample_history 11))) \<noteq> sample_history 11"
  proof
    assume "g_history (handleGetHistory (Some (sample_history 11))) = sample_history 11"
    then have "length (g_history (handleGetHistory (Some (sample_history 11)))) =
               length (sample_history 11)" by simp
    with l g show False by simp
  qed
  with l g show ?thesis by simp
qed


text \<open>
  Claim C9, amended. The list operation takes no limit. On the server it never fails,
  leaves the data file as it is and returns the first ten stored records in stored
  order, with their count; it returns every stored record when at most ten are stored.
  The stored order is newest first: after accepted appends the listing is the ten
  newest records, the newest first. The client's \<^verbatim>\<open>getHistory\<close> never fails either: it
  returns the list the back end sent, and the whole list kept in \<^verbatim>\<open>localStorage\<close> when
  the request fails.
\<close>

theorem history_list:
  "history_php GET f e i =
     (GetReply \<lparr>g_success = True, g_history = take 10 (load_history f),
                g_count = min 10 (length (load_history f))\<rparr>, f) \<and>
   (length (load_history f) \<le> 10 \<longrightarrow> g_history (handleGetHistory f) = load_history f) \<and>
   (list_all accepted xs \<and> xs \<noteq> [] \<longrightarrow>
      g_history (handleGetHistory (post_all f 50 xs)) =
        take 10 (rev (map made xs) @ load_history f)) \<and>
   (\<exists>h. fst (getHistory net s) = Inr h) \<and>
   (request net = None \<longrightarrow> fst (getHistory net s) = Inr (getHistoryFromStorage s)) \<and>
   (request net = Some (JsonObject (Some h)) \<longrightarrow> fst (getHistory net s) = Inr h)"
proof (intro conjI impI)
  show "history_php GET f e i =
     (GetReply \<lparr>g_success = True, g_history = take 10 (load_history f),
                g_count = min 10 (length (load_history f))\<rparr>, f)"
    by (simp add: history_php_def handleGetHistory_eq)
next
  assume "length (load_history f) \<le> 10"
  then show "g_history (handleGetHistory f) = load_history f"
    by (simp add: handleGetHistory_eq)
next
  assume a: "list_all accepted xs \<and> xs \<noteq> []"
  then have "\<forall>x \<in> set xs. accepted x" by (simp add: list_all_iff)
  from post_all_accepted [OF this, of f 50] a
  have "post_all f 50 xs = Some (take 50 (rev (map made xs) @ load_history f))" by simp
  then have "g_history (handleGetHistory (post_all f 50 xs)) =
        take 10 (take 50 (rev (map made xs) @ load_history f))"
    by (simp only: handleGetHistory_eq load_history_def option.case get_response.simps)
  also have "\<dots> = take 10 (rev (map made xs) @ load_history f)"
    by (simp only: take_take) simp
  finally show "g_history (handleGetHistory (post_all f 50 xs)) =
        take 10 (rev (map made xs) @ load_history f)" .
next
  show "\<exists>h. fst (getHistory net s) = Inr h"
    by (simp add: getHistory_def split: option.splits history_json.splits)
next
  assume "request net = None"
  then show "fst (getHistory net s) = Inr (getHistoryFromStorage s)"
    by (simp add: getHistory_def)
next
  assume "request net = Some (JsonObject (Some h))"
  then show "fst (getHistory net s) = Inr h"
    by (simp add: getHistory_def)
qed

theorem history_list_witness:
  "length (load_history (Some (sample_history 3))) \<le> 10 \<and>
   g_history (handleGetHistory (Some (sample_history 3))) = sample_history 3 \<and>
   list_all accepted [sample_post 7] \<and> [sample_post 7] \<noteq> [] \<and>
   g_history (handleGetHistory (post_all (Some (sample_history 3)) 50 [sample_post 7])) =
     made (sample_post 7) # sample_history 3 \<and>
   request (Rejected :: nat history_json fetch_result) = None \<and>
   fst (getHistory Rejected (Item [2, 1, 0 :: nat])) = Inr [2, 1, 0] \<and>
   request (Response True (Some (JsonObject (Some [5, 4 :: nat])))) =
     Some (JsonObject (Some [5, 4])) \<and>
   fst (getHistory (Response True (Some (JsonObject (Some [5, 4 :: nat])))) NoItem) = Inr [5, 4]"
proof -
  have l: "length (load_history (Some (sample_history 3))) \<le> 10"
    by (simp add: load_history_def length_sample_history)
  have a: "list_all accepted [sample_post 7] \<and> [sample_post 7] \<noteq> []"
    by (simp add: accepted_sample_post)
  have r1: "request (Rejected :: nat history_json fetch_result) = None"
    by (simp add: request_def)
  have r2: "request (Response True (Some (JsonObject (Some [5, 4 :: nat])))) =
     Some (JsonObject (Some [5, 4]))"
    by (simp add: request_def)
  note t1 = history_list [where f = "Some (sample_history 3)" and xs = "[sample_post 7]"
      and net = "Rejected :: nat history_json fetch_result" and s = "Item [2, 1, 0 :: nat]"]
  note t2 = history_list [where f = None and xs = "[]"
      and net = "Response True (Some (JsonObject (Some [5, 4 :: nat])))" and s = NoItem
      and h = "[5, 4 :: nat]"]
  from t1 l have 1: "g_history (handleGetHistory (Some (sample_history 3))) = sample_history 3"
    by (simp add: load_history_def)
  from t1 a have 2:
    "g_history (handleGetHistory (post_all (Some (sample_history 3)) 50 [sample_post 7])) =
       made (sample_post 7) # sample_history 3"
    by (simp add: load_history_def length_sample_history)
  from t1 r1 have 3: "fst (getHistory Rejected (Item [2, 1, 0 :: nat])) = Inr [2, 1, 0]"
    by (simp add: getHistoryFromStorage_def)
  from t2 r2 have 4:
    "fst (getHistory (Response True (Some (JsonObject (Some [5, 4 :: nat])))) NoItem) = Inr [5, 4]"
    by simp
  from l 1 a 2 r1 3 r2 4 show ?thesis by simp
qed

subsection \<open>Rounding\<close>

lemma rounded_to_floor:
  "rounded_to p x (of_int \<lfloor>x * 10 ^ p + 1 / 2\<rfloor> / 10 ^ p)"
proof -
  define k where "k = \<lfloor>x * 10 ^ p + 1 / 2\<rfloor>"
  define y where "y = (of_int k :: rat) / 10 ^ p"
  have pos: "(0::rat) < 10 ^ p" by simp
  have yk: "y * 10 ^ p = of_int k" by (simp add: y_def)
  define z where "z = x * 10 ^ p"
  have lo: "of_int k \<le> z + 1 / 2" unfolding k_def z_def by (rule of_int_floor_le)
  have hi: "z + 1 / 2 < of_int k + 1" unfolding k_def z_def by linarith
  have "\<bar>y - x\<bar> * (2 * 10 ^ p) = \<bar>(y - x) * 10 ^ p\<bar> * 2"
    using pos by (simp add: abs_mult)
  also have "(y - x) * 10 ^ p = of_int k - z"
    using yk by (simp add: algebra_simps z_def)
  also have "\<bar>of_int k - z\<bar> * 2 \<le> 1"
  proof -
    have A: "of_int k - z \<le> 1 / 2" using lo by linarith
    have B: "- (of_int k - z) \<le> 1 / 2" using hi by linarith
    have "\<bar>of_int k - z\<bar> \<le> 1 / 2" by (rule abs_leI [OF A B])
    then show ?thesis by (simp add: field_simps)
  qed
  finally have "\<bar>y - x\<bar> * (2 * 10 ^ p) \<le> 1" .
  moreover have "of_int \<lfloor>y * 10 ^ p\<rfloor> = y * 10 ^ p" by (simp add: yk)
  ultimately show ?thesis by (simp add: rounded_to_def y_def k_def)
qed

lemma rounded_to_neg: "rounded_to p (- x) y \<Longrightarrow> rounded_to p x (- y)"
proof -
  assume a: "rounded_to p (- x) y"
  have "\<bar>- y - x\<bar> = \<bar>y - (- x)\<bar>" by (simp add: abs_minus_commute)
  moreover have "of_int \<lfloor>y * 10 ^ p\<rfloor> = y * 10 ^ p \<Longrightarrow> of_int \<lfloor>- y * 10 ^ p\<rfloor> = - y * 10 ^ p"
    by (metis floor_of_int mult_minus_left of_int_minus)
  ultimately show ?thesis using a by (simp add: rounded_to_def)
qed

lemma rounded_to_php_round: "rounded_to p x (php_round x p)"
proof (cases "0 \<le> x")
  case True
  then show ?thesis by (simp add: php_round_def rounded_to_floor)
next
  case False
  have "rounded_to p (- x) (of_int \<lfloor>(- x) * 10 ^ p + 1 / 2\<rfloor> / 10 ^ p)"
    by (rule rounded_to_floor)
  from rounded_to_neg [OF this] False show ?thesis by (simp add: php_round_def)
qed

lemma rounded_to_Math_round_2: "rounded_to 2 x (of_int (Math_round (x * 100)) / 100)"
  using rounded_to_floor [of 2 x] by (simp add: Math_round_def)

lemma rounded_to_Math_round_6: "rounded_to 6 x (of_int (Math_round (x * 1000000)) / 1000000)"
  using rounded_to_floor [of 6 x] by (simp add: Math_round_def)

text \<open>A value that has at most \<open>p\<close> decimals already is its own rounding.\<close>

lemma rounded_to_exact:
  assumes "rounded_to p x x" "rounded_to p x y"
  shows "y = x"
proof -
  have pos: "(0::rat) < 10 ^ p" by simp
  obtain a :: int where a: "x * 10 ^ p = of_int a"
    using assms(1) by (metis rounded_to_def)
  obtain b :: int where b: "y * 10 ^ p = of_int b"
    using assms(2) by (metis rounded_to_def)
  have "\<bar>y - x\<bar> * (2 * 10 ^ p) = \<bar>(y - x) * 10 ^ p\<bar> * 2"
    using pos by (simp add: abs_mult)
  also have "(y - x) * 10 ^ p = of_int (b - a)"
    using a b by (simp add: algebra_simps)
  finally have "\<bar>(of_int (b - a) :: rat)\<bar> * 2 \<le> 1"
    using assms(2) by (simp add: rounded_to_def)
  then have "\<bar>b - a\<bar> * 2 \<le> 1"
    by (metis (mono_tags) of_int_abs of_int_le_iff of_int_mult of_int_numeral of_int_1)
  then have "b = a" by arith
  with a b have "y * 10 ^ p = x * 10 ^ p" by simp
  with pos show ?thesis by simp
qed


subsection \<open>The client's \<^verbatim>\<open>convert\<close>\<close>

lemma fallbackRates_nonzero: "map_of fallbackRates k = Some v \<Longrightarrow> v \<noteq> 0"
proof -
  assume "map_of fallbackRates k = Some v"
  then have "(k, v) \<in> set fallbackRates" by (rule map_of_SomeD)
  then show "v \<noteq> 0" by (auto simp: fallbackRates_def)
qed

lemma fallbackRates_Nil: "map_of fallbackRates [] = None"
  by (simp add: fallbackRates_def)

lemma toUpperCase_Nil: "toUpperCase s = [] \<longleftrightarrow> s = []"
  by (simp add: toUpperCase_def)

lemma convert_invalid:
  "frm = [] \<or> to = [] \<or> amount \<le> 0 \<Longrightarrow> convert w frm to amount = (Inl InvalidParameters, [])"
  by (auto simp: convert_def)

lemma convert_backend:
  "frm \<noteq> [] \<Longrightarrow> to \<noteq> [] \<Longrightarrow> 0 < amount \<Longrightarrow> request (w_net w) = Some d \<Longrightarrow>
     convert w frm to amount =
       (Inr (Backend d), [ConvertRequest (toUpperCase frm) (toUpperCase to) amount])"
  by (simp add: convert_def)

lemma convert_fallback:
  assumes "request (w_net w) = None" and "0 < amount"
    and "map_of fallbackRates (toUpperCase frm) = Some rf"
    and "map_of fallbackRates (toUpperCase to) = Some rt"
  shows "convert w frm to amount =
     (Inr (Converted
        \<lparr>c_success = True, c_from = toUpperCase frm, c_to = toUpperCase to, c_amount = amount,
         c_result = of_int (Math_round (amount * (rt / rf) * 100)) / 100,
         c_rate = of_int (Math_round (rt / rf * 1000000)) / 1000000,
         c_date = w_later w, c_cached = None, c_fallback = Some True\<rparr>),
      [ConvertRequest (toUpperCase frm) (toUpperCase to) amount])"
proof -
  have "frm \<noteq> []" "to \<noteq> []"
    using assms(3,4) fallbackRates_Nil by (auto simp: toUpperCase_def)
  moreover have "rf \<noteq> 0" "rt \<noteq> 0"
    using assms(3,4) by (auto dest: fallbackRates_nonzero)
  ultimately show ?thesis
    using assms by (simp add: convert_def Let_def)
qed

lemma convert_unsupported:
  assumes "frm \<noteq> []" "to \<noteq> []" "0 < amount" "request (w_net w) = None"
    and "map_of fallbackRates (toUpperCase frm) = None \<or>
         map_of fallbackRates (toUpperCase to) = None"
  shows "convert w frm to amount =
     (Inl UnsupportedCurrency, [ConvertRequest (toUpperCase frm) (toUpperCase to) amount])"
  using assms by (auto simp: convert_def Let_def split: option.splits)

subsection \<open>The endpoint \<^verbatim>\<open>convert.php\<close>\<close>

lemma convert_catch_supported:
  "map_of php_rates frm = Some rf \<Longrightarrow> map_of php_rates to = Some rt \<Longrightarrow>
     convert_catch frm to (Some a) done =
       ConvertOk \<lparr>c_success = True, c_from = frm, c_to = to, c_amount = a,
                  c_result = php_round (a * (rt / rf)) 2, c_rate = php_round (rt / rf) 6,
                  c_date = done, c_cached = Some False, c_fallback = Some True\<rparr>"
  by (simp add: convert_catch_def Let_def)

lemma convert_catch_unsupported:
  "map_of php_rates frm = None \<or> map_of php_rates to = None \<Longrightarrow>
     convert_catch frm to a done = ConvertUnsupported"
  by (auto simp: convert_catch_def split: option.splits)

lemma convert_catch_some_cases:
  "convert_catch frm to (Some a) done = ConvertUnsupported \<or>
   (\<exists>r. convert_catch frm to (Some a) done = ConvertOk r \<and>
        c_cached r = Some False \<and> c_fallback r = Some True)"
  by (simp add: convert_catch_def Let_def split: option.splits)

lemma convert_php_unchecked:
  "\<not> passes_checks q \<Longrightarrow>
     \<exists>frm to a. convert_php php e cache q = (convert_catch frm to a (s_done e), cache, [])"
  by (auto simp: convert_php_def passes_checks_def Let_def)

lemma convert_php_hit:
  "passes_checks q \<Longrightarrow>
     cache_read (cache (convert_key php q)) (s_time e) 300 = Some cached \<Longrightarrow>
     convert_php php e cache q = (ConvertOk (cached\<lparr>c_cached := Some True\<rparr>), cache, [])"
  by (simp add: convert_php_def passes_checks_def convert_key_def Let_def)

lemma convert_php_failed:
  "passes_checks q \<Longrightarrow>
     cache_read (cache (convert_key php q)) (s_time e) 300 = None \<Longrightarrow>
     failed u_success (s_upstream e) \<Longrightarrow>
     convert_php php e cache q =
       (convert_catch (strtoupper (trim (q_from q))) (strtoupper (trim (q_to q)))
          (Some (floatval (q_amount q))) (s_done e),
        cache,
        [UpstreamConvert (strtoupper (trim (q_from q))) (strtoupper (trim (q_to q)))
           (floatval (q_amount q))])"
  by (simp add: convert_php_def passes_checks_def convert_key_def failed_def Let_def
        split: answer.splits)

lemma convert_php_live:
  "passes_checks q \<Longrightarrow>
     cache_read (cache (convert_key php q)) (s_time e) 300 = None \<Longrightarrow>
     s_upstream e = Answer d \<Longrightarrow> u_success d \<Longrightarrow>
     convert_php php e cache q =
       (ConvertOk \<lparr>c_success = True, c_from = u_from d, c_to = u_to d, c_amount = u_amount d,
                   c_result = u_result d, c_rate = u_rate d, c_date = s_done e,
                   c_cached = Some False, c_fallback = None\<rparr>,
        cache(convert_key php q \<mapsto>
          \<lparr>content = Some \<lparr>c_success = True, c_from = u_from d, c_to = u_to d,
                            c_amount = u_amount d, c_result = u_result d, c_rate = u_rate d,
                            c_date = s_done e, c_cached = Some False, c_fallback = None\<rparr>,
           mtime = s_done e\<rparr>),
        [UpstreamConvert (strtoupper (trim (q_from q))) (strtoupper (trim (q_to q)))
           (floatval (q_amount q))])"
  by (simp add: convert_php_def passes_checks_def convert_key_def Let_def)

lemma convert_php_same_code:
  "\<not> php_empty (q_from q) \<Longrightarrow> \<not> php_empty (q_to q) \<Longrightarrow> \<not> amount_empty (q_amount q) \<Longrightarrow>
     0 < floatval (q_amount q) \<Longrightarrow>
     strtoupper (trim (q_from q)) = strtoupper (trim (q_to q)) \<Longrightarrow>
     convert_php php e cache q =
       (convert_catch (strtoupper (trim (q_from q))) (strtoupper (trim (q_to q)))
          (Some (floatval (q_amount q))) (s_done e), cache, [])"
  by (simp add: convert_php_def Let_def)

lemma php_rates_nonzero: "map_of php_rates k = Some v \<Longrightarrow> v \<noteq> 0"
proof -
  assume "map_of php_rates k = Some v"
  then have "(k, v) \<in> set php_rates" by (rule map_of_SomeD)
  then show "v \<noteq> 0" by (auto simp: php_rates_def)
qed

lemma convert_php_upstream_failed:
  assumes "\<not> php_empty (q_from q)" "\<not> php_empty (q_to q)" "\<not> amount_empty (q_amount q)"
    and "0 < floatval (q_amount q)"
    and "cache_read (cache (convert_key php q)) (s_time e) 300 = None"
    and "failed u_success (s_upstream e)"
  shows "fst (convert_php php e cache q) =
     convert_catch (strtoupper (trim (q_from q))) (strtoupper (trim (q_to q)))
       (Some (floatval (q_amount q))) (s_done e)"
proof (cases "strtoupper (trim (q_from q)) = strtoupper (trim (q_to q))")
  case True
  with assms show ?thesis by (simp add: convert_php_same_code)
next
  case False
  with assms have "passes_checks q" by (simp add: passes_checks_def)
  with assms show ?thesis by (simp add: convert_php_failed)
qed

text \<open>
  Claim C1. For every pair of codes in the static table and every positive amount: when
  the back-end request of the client's \<^verbatim>\<open>convert\<close> fails, and when the external API
  fails for \<^verbatim>\<open>convert.php\<close> (no fresh cache file standing in front of it), the operation
  still returns a successful result marked \<open>fallback = true\<close>, whose rate is
  \<open>table[to] / table[from]\<close> rounded to 6 decimal places and whose result is the amount
  times that quotient, rounded to 2 decimal places.
\<close>

theorem static_fallback_conversion:
  "(request (w_net w) = None \<and> 0 < amount \<and>
    map_of fallbackRates (toUpperCase frm) = Some rf \<and>
    map_of fallbackRates (toUpperCase to) = Some rt \<longrightarrow>
      (\<exists>r. fst (convert w frm to amount) = Inr (Converted r) \<and>
           c_success r \<and> c_fallback r = Some True \<and>
           rounded_to 6 (rt / rf) (c_rate r) \<and>
           rounded_to 2 (amount * (rt / rf)) (c_result r))) \<and>
   (failed u_success (s_upstream e) \<and>
    cache_read (cache (convert_key php q)) (s_time e) 300 = None \<and>
    \<not> php_empty (q_from q) \<and> \<not> php_empty (q_to q) \<and> \<not> amount_empty (q_amount q) \<and>
    0 < floatval (q_amount q) \<and>
    map_of php_rates (strtoupper (trim (q_from q))) = Some pf \<and>
    map_of php_rates (strtoupper (trim (q_to q))) = Some pt \<longrightarrow>
      (\<exists>r. fst (convert_php php e cache q) = ConvertOk r \<and>
           c_success r \<and> c_fallback r = Some True \<and>
           rounded_to 6 (pt / pf) (c_rate r) \<and>
           rounded_to 2 (floatval (q_amount q) * (pt / pf)) (c_result r)))"
proof (intro conjI impI)
  assume a: "request (w_net w) = None \<and> 0 < amount \<and>
    map_of fallbackRates (toUpperCase frm) = Some rf \<and>
    map_of fallbackRates (toUpperCase to) = Some rt"
  then have "convert w frm to amount =
     (Inr (Converted
        \<lparr>c_success = True, c_from = toUpperCase frm, c_to = toUpperCase to, c_amount = amount,
         c_result = of_int (Math_round (amount * (rt / rf) * 100)) / 100,
         c_rate = of_int (Math_round (rt / rf * 1000000)) / 1000000,
         c_date = w_later w, c_cached = None, c_fallback = Some True\<rparr>),
      [ConvertRequest (toUpperCase frm) (toUpperCase to) amount])"
    by (simp only: convert_fallback)
  then have "fst (convert w frm to amount) = Inr (Converted
        \<lparr>c_success = True, c_from = toUpperCase frm, c_to = toUpperCase to, c_amount = amount,
         c_result = of_int (Math_round (amount * (rt / rf) * 100)) / 100,
         c_rate = of_int (Math_round (rt / rf * 1000000)) / 1000000,
         c_date = w_later w, c_cached = None, c_fallback = Some True\<rparr>)"
    by (simp only: fst_conv)
  moreover have "rounded_to 6 (rt / rf) (of_int (Math_round (rt / rf * 1000000)) / 1000000)"
    by (rule rounded_to_Math_round_6)
  moreover have "rounded_to 2 (amount * (rt / rf))
      (of_int (Math_round (amount * (rt / rf) * 100)) / 100)"
    by (rule rounded_to_Math_round_2)
  ultimately show "\<exists>r. fst (convert w frm to amount) = Inr (Converted r) \<and>
           c_success r \<and> c_fallback r = Some True \<and>
           rounded_to 6 (rt / rf) (c_rate r) \<and>
           rounded_to 2 (amount * (rt / rf)) (c_result r)"
    by (simp only: conversion.simps simp_thms ex_simps sum.inject payload.inject) 
next
  assume a: "failed u_success (s_upstream e) \<and>
    cache_read (cache (convert_key php q)) (s_time e) 300 = None \<and>
    \<not> php_empty (q_from q) \<and> \<not> php_empty (q_to q) \<and> \<not> amount_empty (q_amount q) \<and>
    0 < floatval (q_amount q) \<and>
    map_of php_rates (strtoupper (trim (q_from q))) = Some pf \<and>
    map_of php_rates (strtoupper (trim (q_to q))) = Some pt"
  then have "fst (convert_php php e cache q) =
     convert_catch (strtoupper (trim (q_from q))) (strtoupper (trim (q_to q)))
       (Some (floatval (q_amount q))) (s_done e)"
    by (intro convert_php_upstream_failed) blast+
  with a have "fst (convert_php php e cache q) =
     ConvertOk \<lparr>c_success = True, c_from = strtoupper (trim (q_from q)),
                c_to = strtoupper (trim (q_to q)), c_amount = floatval (q_amount q),
                c_result = php_round (floatval (q_amount q) * (pt / pf)) 2,
                c_rate = php_round (pt / pf) 6,
                c_date = s_done e, c_cached = Some False, c_fallback = Some True\<rparr>"
    by (simp only: convert_catch_supported)
  moreover have "rounded_to 6 (pt / pf) (php_round (pt / pf) 6)"
    by (rule rounded_to_php_round)
  moreover have "rounded_to 2 (floatval (q_amount q) * (pt / pf))
      (php_round (floatval (q_amount q) * (pt / pf)) 2)"
    by (rule rounded_to_php_round)
  ultimately show "\<exists>r. fst (convert_php php e cache q) = ConvertOk r \<and>
           c_success r \<and> c_fallback r = Some True \<and>
           rounded_to 6 (pt / pf) (c_rate r) \<and>
           rounded_to 2 (floatval (q_amount q) * (pt / pf)) (c_result r)"
    by (simp only: conversion.simps simp_thms ex_simps convert_reply.inject)
qed

lemma offline_fails: "request (w_net offline) = None"
  by (simp add: offline_def request_def)

lemma upstream_down_failed: "failed ok (s_upstream (upstream_down t))"
  by (simp add: upstream_down_def failed_def)

lemma no_cache_read: "cache_read (no_cache k) t ttl = None"
  by (simp add: no_cache_def cache_read_def)

theorem static_fallback_conversion_witness:
  "request (w_net offline) = None \<and> (0::rat) < 100 \<and>
   map_of fallbackRates (toUpperCase ''rub'') = Some 75 \<and>
   map_of fallbackRates (toUpperCase ''usd'') = Some 1 \<and>
   (\<exists>r. fst (convert offline ''rub'' ''usd'' 100) = Inr (Converted r) \<and>
        c_success r \<and> c_fallback r = Some True \<and>
        rounded_to 6 (1 / 75) (c_rate r) \<and> rounded_to 2 (100 * (1 / 75)) (c_result r)) \<and>
   failed u_success (s_upstream (upstream_down 0)) \<and>
   cache_read (no_cache (convert_key sample_php rub_to_usd)) (s_time (upstream_down 0)) 300 = None \<and>
   \<not> php_empty (q_from rub_to_usd) \<and> \<not> php_empty (q_to rub_to_usd) \<and>
   \<not> amount_empty (q_amount rub_to_usd) \<and> 0 < floatval (q_amount rub_to_usd) \<and>
   map_of php_rates (strtoupper (trim (q_from rub_to_usd))) = Some 75 \<and>
   map_of php_rates (strtoupper (trim (q_to rub_to_usd))) = Some 1 \<and>
   (\<exists>r. fst (convert_php sample_php (upstream_down 0) no_cache rub_to_usd) = ConvertOk r \<and>
        c_success r \<and> c_fallback r = Some True \<and>
        rounded_to 6 (1 / 75) (c_rate r) \<and>
        rounded_to 2 (floatval (q_amount rub_to_usd) * (1 / 75)) (c_result r))"
proof -
  have h1: "map_of fallbackRates (toUpperCase ''rub'') = Some 75" by code_simp
  have h2: "map_of fallbackRates (toUpperCase ''usd'') = Some 1" by code_simp
  have g1: "\<not> php_empty (q_from rub_to_usd)" by code_simp
  have g2: "\<not> php_empty (q_to rub_to_usd)" by code_simp
  have g3: "\<not> amount_empty (q_amount rub_to_usd)" by code_simp
  have g4: "0 < floatval (q_amount rub_to_usd)" by code_simp
  have g5: "map_of php_rates (strtoupper (trim (q_from rub_to_usd))) = Some 75" by code_simp
  have g6: "map_of php_rates (strtoupper (trim (q_to rub_to_usd))) = Some 1" by code_simp
  note t = static_fallback_conversion [where w = offline and amount = 100 and frm = "''rub''"
      and to = "''usd''" and rf = 75 and rt = 1 and e = "upstream_down 0" and php = sample_php
      and cache = no_cache and q = rub_to_usd and pf = 75 and pt = 1]
  have H1: "request (w_net offline) = None \<and> (0::rat) < 100 \<and>
      map_of fallbackRates (toUpperCase ''rub'') = Some 75 \<and>
      map_of fallbackRates (toUpperCase ''usd'') = Some 1"
    using offline_fails h1 h2 by simp
  have 1: "\<exists>r. fst (convert offline ''rub'' ''usd'' 100) = Inr (Converted r) \<and>
        c_success r \<and> c_fallback r = Some True \<and>
        rounded_to 6 (1 / 75) (c_rate r) \<and> rounded_to 2 (100 * (1 / 75)) (c_result r)"
    by (rule mp [OF conjunct1 [OF t] H1])
  have H2: "failed u_success (s_upstream (upstream_down 0)) \<and>
      cache_read (no_cache (convert_key sample_php rub_to_usd)) (s_time (upstream_down 0)) 300 =
        None \<and>
      \<not> php_empty (q_from rub_to_usd) \<and> \<not> php_empty (q_to rub_to_usd) \<and>
      \<not> amount_empty (q_amount rub_to_usd) \<and> 0 < floatval (q_amount rub_to_usd) \<and>
      map_of php_rates (strtoupper (trim (q_from rub_to_usd))) = Some 75 \<and>
      map_of php_rates (strtoupper (trim (q_to rub_to_usd))) = Some 1"
    using upstream_down_failed [of u_success 0] no_cache_read g1 g2 g3 g4 g5 g6 by simp
  have 2: "\<exists>r. fst (convert_php sample_php (upstream_down 0) no_cache rub_to_usd) = ConvertOk r \<and>
        c_success r \<and> c_fallback r = Some True \<and>
        rounded_to 6 (1 / 75) (c_rate r) \<and>
        rounded_to 2 (floatval (q_amount rub_to_usd) * (1 / 75)) (c_result r)"
    by (rule mp [OF conjunct2 [OF t] H2])
  from H1 1 H2 2 show ?thesis by (simp only: simp_thms)
qed

subsection \<open>Unsupported currencies\<close>

lemma convert_requests:
  "frm \<noteq> [] \<Longrightarrow> to \<noteq> [] \<Longrightarrow> 0 < amount \<Longrightarrow>
     snd (convert w frm to amount) =
       [ConvertRequest (toUpperCase frm) (toUpperCase to) amount]"
  by (simp add: convert_def Let_def split: option.splits)

lemma convert_unsupported_iff:
  assumes "frm \<noteq> []" "to \<noteq> []" "0 < amount"
  shows "fst (convert w frm to amount) = Inl UnsupportedCurrency \<longleftrightarrow>
     request (w_net w) = None \<and>
     (map_of fallbackRates (toUpperCase frm) = None \<or>
      map_of fallbackRates (toUpperCase to) = None)"
proof (cases "request (w_net w)")
  case (Some d)
  with assms show ?thesis by (simp add: convert_backend)
next
  case None
  show ?thesis
  proof (cases "map_of fallbackRates (toUpperCase frm) = None \<or>
                map_of fallbackRates (toUpperCase to) = None")
    case True
    with assms None show ?thesis by (simp add: convert_unsupported)
  next
    case False
    then obtain rf rt where "map_of fallbackRates (toUpperCase frm) = Some rf"
      and "map_of fallbackRates (toUpperCase to) = Some rt" by auto
    with assms None show ?thesis by (simp add: convert_fallback)
  qed
qed

lemma convert_catch_unsupported_iff:
  "convert_catch frm to (Some a) done = ConvertUnsupported \<longleftrightarrow>
     map_of php_rates frm = None \<or> map_of php_rates to = None"
  by (auto simp: convert_catch_def Let_def split: option.splits)

lemma convert_php_unsupported_iff:
  assumes "passes_checks q"
  shows "fst (convert_php php e cache q) = ConvertUnsupported \<longleftrightarrow>
     cache_read (cache (convert_key php q)) (s_time e) 300 = None \<and>
     failed u_success (s_upstream e) \<and>
     (map_of php_rates (strtoupper (trim (q_from q))) = None \<or>
      map_of php_rates (strtoupper (trim (q_to q))) = None)"
proof (cases "cache_read (cache (convert_key php q)) (s_time e) 300")
  case (Some cached)
  with assms show ?thesis by (simp add: convert_php_hit)
next
  case None
  show ?thesis
  proof (cases "failed u_success (s_upstream e)")
    case True
    with assms None show ?thesis
      by (simp add: convert_php_failed convert_catch_unsupported_iff)
  next
    case False
    then obtain d where "s_upstream e = Answer d" "u_success d"
      by (auto simp: failed_def split: answer.splits)
    with assms None False show ?thesis by (simp add: convert_php_live)
  qed
qed

text \<open>
  Claim C2, as stated, fails in two ways. The client's \<^verbatim>\<open>convert\<close> checks the amount first:
  with the unknown code \<^verbatim>\<open>XYZ\<close>, the back end down and the amount 0 it throws the
  invalid-parameters error, and sends no request. And \<^verbatim>\<open>convert.php\<close> answers a request
  from \<^verbatim>\<open>XYZ\<close> to \<^verbatim>\<open>XYZ\<close> with the unsupported-currency error without having called the
  external API.
\<close>

theorem unsupported_currency_counterexample:
  "convert offline ''XYZ'' ''USD'' 0 = (Inl InvalidParameters, []) \<and>
   convert_php sample_php (upstream_down 0) no_cache unknown_to_itself =
     (ConvertUnsupported, no_cache, [])"
proof -
  have "convert offline ''XYZ'' ''USD'' 0 = (Inl InvalidParameters, [])"
    by (simp add: convert_def)
  moreover have "convert_php sample_php (upstream_down 0) no_cache unknown_to_itself =
     (ConvertUnsupported, no_cache, [])"
    by (simp add: convert_php_def unknown_to_itself_def php_empty_def amount_empty_def
          floatval_def convert_catch_def php_rates_def strtoupper_def trim_def
          is_trim_char_def upper_char_def Let_def)
  ultimately show ?thesis by simp
qed

text \<open>
  Claim C2, amended. For a call with both codes given and a positive amount (on the
  server: a request that passes the checks of its parameters), the live tier is always
  asked first, and the operation ends in the unsupported-currency error exactly when
  the live tier fails and one of the codes is absent from the static table. So the
  error is surfaced only after both tiers: the one request to the live tier is among
  the requests issued.
\<close>

theorem unsupported_currency_terminal:
  "(frm \<noteq> [] \<and> to \<noteq> [] \<and> 0 < amount \<longrightarrow>
      snd (convert w frm to amount) =
        [ConvertRequest (toUpperCase frm) (toUpperCase to) amount] \<and>
      (fst (convert w frm to amount) = Inl UnsupportedCurrency \<longleftrightarrow>
         request (w_net w) = None \<and>
         (map_of fallbackRates (toUpperCase frm) = None \<or>
          map_of fallbackRates (toUpperCase to) = None))) \<and>
   (passes_checks q \<longrightarrow>
      (fst (convert_php php e cache q) = ConvertUnsupported \<longleftrightarrow>
         cache_read (cache (convert_key php q)) (s_time e) 300 = None \<and>
         failed u_success (s_upstream e) \<and>
         (map_of php_rates (strtoupper (trim (q_from q))) = None \<or>
          map_of php_rates (strtoupper (trim (q_to q))) = None)) \<and>
      (fst (convert_php php e cache q) = ConvertUnsupported \<longrightarrow>
         snd (snd (convert_php php e cache q)) =
           [UpstreamConvert (strtoupper (trim (q_from q))) (strtoupper (trim (q_to q)))
              (floatval (q_amount q))]))"
proof (intro conjI impI)
  assume a: "frm \<noteq> [] \<and> to \<noteq> [] \<and> 0 < amount"
  then show "snd (convert w frm to amount) =
        [ConvertRequest (toUpperCase frm) (toUpperCase to) amount]"
    by (simp add: convert_requests)
  from a show "fst (convert w frm to amount) = Inl UnsupportedCurrency \<longleftrightarrow>
         request (w_net w) = None \<and>
         (map_of fallbackRates (toUpperCase frm) = None \<or>
          map_of fallbackRates (toUpperCase to) = None)"
    by (intro convert_unsupported_iff) blast+
next
  assume p: "passes_checks q"
  then show iff: "fst (convert_php php e cache q) = ConvertUnsupported \<longleftrightarrow>
         cache_read (cache (convert_key php q)) (s_time e) 300 = None \<and>
         failed u_success (s_upstream e) \<and>
         (map_of php_rates (strtoupper (trim (q_from q))) = None \<or>
          map_of php_rates (strtoupper (trim (q_to q))) = None)"
    by (rule convert_php_unsupported_iff)
  assume "fst (convert_php php e cache q) = ConvertUnsupported"
  with iff have "cache_read (cache (convert_key php q)) (s_time e) 300 = None"
    and "failed u_success (s_upstream e)" by blast+
  with p show "snd (snd (convert_php php e cache q)) =
           [UpstreamConvert (strtoupper (trim (q_from q))) (strtoupper (trim (q_to q)))
              (floatval (q_amount q))]"
    by (simp add: convert_php_failed)
qed

theorem unsupported_currency_terminal_witness:
  "''XYZ'' \<noteq> [] \<and> ''usd'' \<noteq> [] \<and> (0::rat) < 10 \<and>
   convert offline ''XYZ'' ''usd'' 10 =
     (Inl UnsupportedCurrency, [ConvertRequest ''XYZ'' ''USD'' 10]) \<and>
   passes_checks unknown_to_usd \<and>
   convert_php sample_php (upstream_down 0) no_cache unknown_to_usd =
     (ConvertUnsupported, no_cache, [UpstreamConvert ''XYZ'' ''USD'' 10])"
proof -
  have H1: "''XYZ'' \<noteq> [] \<and> ''usd'' \<noteq> [] \<and> (0::rat) < 10" by simp
  have p: "passes_checks unknown_to_usd" by code_simp
  have u1: "toUpperCase ''XYZ'' = ''XYZ''" by code_simp
  have u2: "toUpperCase ''usd'' = ''USD''" by code_simp
  have m1: "map_of fallbackRates ''XYZ'' = None" by code_simp
  have n1: "strtoupper (trim (q_from unknown_to_usd)) = ''XYZ''" by code_simp
  have n2: "strtoupper (trim (q_to unknown_to_usd)) = ''USD''" by code_simp
  have n3: "floatval (q_amount unknown_to_usd) = 10" by code_simp
  have m2: "map_of php_rates ''XYZ'' = None" by code_simp
  note t = unsupported_currency_terminal [where frm = "''XYZ''" and to = "''usd''"
      and amount = 10 and w = offline and q = unknown_to_usd and php = sample_php
      and e = "upstream_down 0" and cache = no_cache]
  note c = mp [OF conjunct1 [OF t] H1]
  note s = mp [OF conjunct2 [OF t] p]
  from c offline_fails m1 have "fst (convert offline ''XYZ'' ''usd'' 10) = Inl UnsupportedCurrency"
    by (simp add: u1 u2)
  moreover from c have "snd (convert offline ''XYZ'' ''usd'' 10) = [ConvertRequest ''XYZ'' ''USD'' 10]"
    by (simp add: u1 u2)
  ultimately have 1: "convert offline ''XYZ'' ''usd'' 10 =
     (Inl UnsupportedCurrency, [ConvertRequest ''XYZ'' ''USD'' 10])"
    by (simp add: prod_eq_iff)
  from s upstream_down_failed [of u_success 0] no_cache_read m2
  have r: "fst (convert_php sample_php (upstream_down 0) no_cache unknown_to_usd) =
      ConvertUnsupported"
    by (simp add: n1 n2)
  with s have "snd (snd (convert_php sample_php (upstream_down 0) no_cache unknown_to_usd)) =
      [UpstreamConvert ''XYZ'' ''USD'' 10]"
    by (simp add: n1 n2 n3)
  moreover have "fst (snd (convert_php sample_php (upstream_down 0) no_cache unknown_to_usd)) =
      no_cache"
    by (simp only: convert_php_failed [where cache = no_cache and php = sample_php
          and q = unknown_to_usd and e = "upstream_down 0",
          OF p no_cache_read upstream_down_failed] fst_conv snd_conv)
  ultimately have 2: "convert_php sample_php (upstream_down 0) no_cache unknown_to_usd =
     (ConvertUnsupported, no_cache, [UpstreamConvert ''XYZ'' ''USD'' 10])"
    using r by (simp add: prod_eq_iff)
  from H1 1 p 2 show ?thesis by (simp only: simp_thms)
qed

subsection \<open>Converting a currency into itself\<close>

lemma rounded_to_one: "rounded_to p 1 y \<Longrightarrow> y = 1"
proof -
  have "rounded_to p 1 1" by (simp add: rounded_to_def)
  then show "rounded_to p 1 y \<Longrightarrow> y = 1" by (rule rounded_to_exact)
qed

text \<open>
  Claim C6, as stated, fails in two ways: a code outside the static table is refused
  (here \<^verbatim>\<open>XYZ\<close>, with the back end down), and the result is the amount rounded to two
  decimal places, which is not the amount when that has more decimals (0.001 becomes 0).
\<close>

theorem same_currency_counterexample:
  "convert offline ''XYZ'' ''XYZ'' 5 =
     (Inl UnsupportedCurrency, [ConvertRequest ''XYZ'' ''XYZ'' 5]) \<and>
   convert offline ''USD'' ''USD'' (1 / 1000) =
     (Inr (Converted \<lparr>c_success = True, c_from = ''USD'', c_to = ''USD'', c_amount = 1 / 1000,
                       c_result = 0, c_rate = 1, c_date = 1200, c_cached = None,
                       c_fallback = Some True\<rparr>),
      [ConvertRequest ''USD'' ''USD'' (1 / 1000)])"
proof -
  have u: "toUpperCase ''XYZ'' = ''XYZ''" "toUpperCase ''USD'' = ''USD''" by code_simp+
  have m: "map_of fallbackRates ''XYZ'' = None" "map_of fallbackRates ''USD'' = Some 1"
    by code_simp+
  have r: "Math_round (1 / 1000 * (1 / 1) * 100) = 0" "Math_round (1 / 1 * 1000000) = 1000000"
    by code_simp+
  have l: "w_later offline = 1200" by (simp add: offline_def)
  have "convert offline ''XYZ'' ''XYZ'' 5 =
     (Inl UnsupportedCurrency, [ConvertRequest ''XYZ'' ''XYZ'' 5])"
    using convert_unsupported [of "''XYZ''" "''XYZ''" 5 offline] offline_fails u m by simp
  moreover have "convert offline ''USD'' ''USD'' (1 / 1000) =
     (Inr (Converted \<lparr>c_success = True, c_from = ''USD'', c_to = ''USD'', c_amount = 1 / 1000,
                       c_result = 0, c_rate = 1, c_date = 1200, c_cached = None,
                       c_fallback = Some True\<rparr>),
      [ConvertRequest ''USD'' ''USD'' (1 / 1000)])"
    using convert_fallback [of offline "1 / 1000" "''USD''" 1 "''USD''" 1] offline_fails u m r l
    by simp
  ultimately show ?thesis by (simp only: simp_thms)
qed

text \<open>
  Claim C6, amended. For a code of the static table and a positive amount, a conversion
  of the code into itself that is served from the static table has rate 1, and its
  result is the amount rounded to two decimal places, hence the amount itself when that
  has at most two decimals. The client serves it so when its back-end request fails;
  \<^verbatim>\<open>convert.php\<close> always does, without asking the cache or the external API.
\<close>

theorem same_currency_conversion:
  "(request (w_net w) = None \<and> 0 < amount \<and>
    map_of fallbackRates (toUpperCase a) = Some v \<longrightarrow>
      (\<exists>r. fst (convert w a a amount) = Inr (Converted r) \<and> c_rate r = 1 \<and>
           rounded_to 2 amount (c_result r) \<and>
           (rounded_to 2 amount amount \<longrightarrow> c_result r = amount))) \<and>
   (\<not> php_empty (q_from q) \<and> \<not> php_empty (q_to q) \<and> \<not> amount_empty (q_amount q) \<and>
    0 < floatval (q_amount q) \<and>
    strtoupper (trim (q_from q)) = strtoupper (trim (q_to q)) \<and>
    map_of php_rates (strtoupper (trim (q_from q))) = Some pv \<longrightarrow>
      (\<exists>r. convert_php php e cache q = (ConvertOk r, cache, []) \<and> c_rate r = 1 \<and>
           rounded_to 2 (floatval (q_amount q)) (c_result r) \<and>
           (rounded_to 2 (floatval (q_amount q)) (floatval (q_amount q)) \<longrightarrow>
              c_result r = floatval (q_amount q))))"
proof (intro conjI impI)
  assume a: "request (w_net w) = None \<and> 0 < amount \<and>
    map_of fallbackRates (toUpperCase a) = Some v"
  then have v: "v \<noteq> 0" by (auto dest: fallbackRates_nonzero)
  define res where "res = (of_int (Math_round (amount * (v / v) * 100)) / 100 :: rat)"
  define rt where "rt = (of_int (Math_round (v / v * 1000000)) / 1000000 :: rat)"
  from a have "convert w a a amount =
     (Inr (Converted
        \<lparr>c_success = True, c_from = toUpperCase a, c_to = toUpperCase a, c_amount = amount,
         c_result = res, c_rate = rt,
         c_date = w_later w, c_cached = None, c_fallback = Some True\<rparr>),
      [ConvertRequest (toUpperCase a) (toUpperCase a) amount])"
    unfolding res_def rt_def by (intro convert_fallback) blast+
  then have 1: "fst (convert w a a amount) = Inr (Converted
        \<lparr>c_success = True, c_from = toUpperCase a, c_to = toUpperCase a, c_amount = amount,
         c_result = res, c_rate = rt,
         c_date = w_later w, c_cached = None, c_fallback = Some True\<rparr>)"
    by (simp only: fst_conv)
  have "rounded_to 6 (v / v) rt" unfolding rt_def by (rule rounded_to_Math_round_6)
  with v have 2: "rt = 1" by (simp add: rounded_to_one)
  have "rounded_to 2 (amount * (v / v)) res" unfolding res_def by (rule rounded_to_Math_round_2)
  with v have 3: "rounded_to 2 amount res" by simp
  then have 4: "rounded_to 2 amount amount \<longrightarrow> res = amount"
    by (auto dest: rounded_to_exact)
  from 1 2 3 4 show "\<exists>r. fst (convert w a a amount) = Inr (Converted r) \<and> c_rate r = 1 \<and>
           rounded_to 2 amount (c_result r) \<and>
           (rounded_to 2 amount amount \<longrightarrow> c_result r = amount)"
    by (simp only: conversion.simps simp_thms ex_simps sum.inject payload.inject)
next
  assume a: "\<not> php_empty (q_from q) \<and> \<not> php_empty (q_to q) \<and> \<not> amount_empty (q_amount q) \<and>
    0 < floatval (q_amount q) \<and>
    strtoupper (trim (q_from q)) = strtoupper (trim (q_to q)) \<and>
    map_of php_rates (strtoupper (trim (q_from q))) = Some pv"
  then have v: "pv \<noteq> 0" by (auto dest: php_rates_nonzero)
  define x where "x = floatval (q_amount q)"
  define res where "res = php_round (x * (pv / pv)) 2"
  define rt where "rt = php_round (pv / pv) 6"
  from a have "convert_php php e cache q =
       (convert_catch (strtoupper (trim (q_from q))) (strtoupper (trim (q_to q)))
          (Some (floatval (q_amount q))) (s_done e), cache, [])"
    by (intro convert_php_same_code) blast+
  moreover from a have "convert_catch (strtoupper (trim (q_from q))) (strtoupper (trim (q_to q)))
          (Some (floatval (q_amount q))) (s_done e) =
       ConvertOk \<lparr>c_success = True, c_from = strtoupper (trim (q_from q)),
                  c_to = strtoupper (trim (q_to q)), c_amount = x,
                  c_result = res, c_rate = rt,
                  c_date = s_done e, c_cached = Some False, c_fallback = Some True\<rparr>"
    unfolding res_def rt_def x_def by (intro convert_catch_supported) auto
  ultimately have 1: "convert_php php e cache q =
       (ConvertOk \<lparr>c_success = True, c_from = strtoupper (trim (q_from q)),
                  c_to = strtoupper (trim (q_to q)), c_amount = x,
                  c_result = res, c_rate = rt,
                  c_date = s_done e, c_cached = Some False, c_fallback = Some True\<rparr>,
        cache, [])"
    by simp
  have "rounded_to 6 (pv / pv) rt" unfolding rt_def by (rule rounded_to_php_round)
  with v have 2: "rt = 1" by (simp add: rounded_to_one)
  have "rounded_to 2 (x * (pv / pv)) res" unfolding res_def by (rule rounded_to_php_round)
  with v have 3: "rounded_to 2 x res" by simp
  then have 4: "rounded_to 2 x x \<longrightarrow> res = x"
    by (auto dest: rounded_to_exact)
  from 1 2 3 4 show "\<exists>r. convert_php php e cache q = (ConvertOk r, cache, []) \<and> c_rate r = 1 \<and>
           rounded_to 2 (floatval (q_amount q)) (c_result r) \<and>
           (rounded_to 2 (floatval (q_amount q)) (floatval (q_amount q)) \<longrightarrow>
              c_result r = floatval (q_amount q))"
    unfolding x_def [symmetric]
    by (simp only: conversion.simps simp_thms ex_simps convert_reply.inject prod.inject)
qed

theorem same_currency_conversion_witness:
  "request (w_net offline) = None \<and> (0::rat) < 5 / 2 \<and>
   map_of fallbackRates (toUpperCase ''eur'') = Some (85 / 100) \<and>
   rounded_to 2 (5 / 2) (5 / 2) \<and>
   (\<exists>r. fst (convert offline ''eur'' ''eur'' (5 / 2)) = Inr (Converted r) \<and> c_rate r = 1 \<and>
        c_result r = 5 / 2) \<and>
   \<not> php_empty (q_from usd_to_usd) \<and> \<not> php_empty (q_to usd_to_usd) \<and>
   \<not> amount_empty (q_amount usd_to_usd) \<and> 0 < floatval (q_amount usd_to_usd) \<and>
   strtoupper (trim (q_from usd_to_usd)) = strtoupper (trim (q_to usd_to_usd)) \<and>
   map_of php_rates (strtoupper (trim (q_from usd_to_usd))) = Some 1 \<and>
   rounded_to 2 (floatval (q_amount usd_to_usd)) (floatval (q_amount usd_to_usd)) \<and>
   (\<exists>r. convert_php sample_php (upstream_down 0) no_cache usd_to_usd =
          (ConvertOk r, no_cache, []) \<and>
        c_rate r = 1 \<and> c_result r = floatval (q_amount usd_to_usd))"
proof -
  have h: "map_of fallbackRates (toUpperCase ''eur'') = Some (85 / 100)" by code_simp
  have rr: "rounded_to 2 (5 / 2) (5 / 2)" by code_simp
  have H1: "request (w_net offline) = None \<and> (0::rat) < 5 / 2 \<and>
      map_of fallbackRates (toUpperCase ''eur'') = Some (85 / 100)"
    using offline_fails h by simp
  have g: "\<not> php_empty (q_from usd_to_usd)" "\<not> php_empty (q_to usd_to_usd)"
    "\<not> amount_empty (q_amount usd_to_usd)" "0 < floatval (q_amount usd_to_usd)"
    "strtoupper (trim (q_from usd_to_usd)) = strtoupper (trim (q_to usd_to_usd))"
    "map_of php_rates (strtoupper (trim (q_from usd_to_usd))) = Some 1"
    by code_simp+
  have rs: "rounded_to 2 (floatval (q_amount usd_to_usd)) (floatval (q_amount usd_to_usd))"
    by code_simp
  have H2: "\<not> php_empty (q_from usd_to_usd) \<and> \<not> php_empty (q_to usd_to_usd) \<and>
      \<not> amount_empty (q_amount usd_to_usd) \<and> 0 < floatval (q_amount usd_to_usd) \<and>
      strtoupper (trim (q_from usd_to_usd)) = strtoupper (trim (q_to usd_to_usd)) \<and>
      map_of php_rates (strtoupper (trim (q_from usd_to_usd))) = Some 1"
    using g by (simp only: simp_thms)
  note t = same_currency_conversion [where w = offline and amount = "5 / 2" and a = "''eur''"
      and v = "85 / 100" and q = usd_to_usd and pv = 1 and php = sample_php
      and e = "upstream_down 0" and cache = no_cache]
  from mp [OF conjunct1 [OF t] H1] rr
  have 1: "\<exists>r. fst (convert offline ''eur'' ''eur'' (5 / 2)) = Inr (Converted r) \<and> c_rate r = 1 \<and>
        c_result r = 5 / 2"
    by blast
  from mp [OF conjunct2 [OF t] H2] rs
  have 2: "\<exists>r. convert_php sample_php (upstream_down 0) no_cache usd_to_usd =
          (ConvertOk r, no_cache, []) \<and>
        c_rate r = 1 \<and> c_result r = floatval (q_amount usd_to_usd)"
    by blast
  from H1 rr 1 H2 rs 2 show ?thesis by blast
qed

subsection \<open>The cache of \<^verbatim>\<open>convert.php\<close> on the fallback paths\<close>

lemma cache_read_later:
  "cache_read f t ttl = None \<Longrightarrow> t \<le> t' \<Longrightarrow> cache_read f t' ttl = None"
  by (auto simp: cache_read_def split: option.splits if_splits)

lemma convert_php_writes_only_live:
  assumes "fst (snd (convert_php php e cache q)) \<noteq> cache"
  shows "passes_checks q \<and> \<not> failed u_success (s_upstream e)"
proof (rule ccontr)
  assume n: "\<not> (passes_checks q \<and> \<not> failed u_success (s_upstream e))"
  show False
  proof (cases "passes_checks q")
    case False
    from convert_php_unchecked [OF this, of php e cache] assms show False by auto
  next
    case True
    with n have f: "failed u_success (s_upstream e)" by simp
    show False
    proof (cases "cache_read (cache (convert_key php q)) (s_time e) 300")
      case None
      with True f assms show False by (simp add: convert_php_failed)
    next
      case (Some c)
      with True assms show False by (simp add: convert_php_hit)
    qed
  qed
qed

text \<open>
  Claim C10, as stated, fails for the unsupported-currency failures it includes: their
  response is the error object, which has no \<^verbatim>\<open>cached\<close> key, so it does not report
  \<open>cached = false\<close>. Here the request from \<^verbatim>\<open>XYZ\<close> to \<^verbatim>\<open>USD\<close>, which passes the checks of
  its parameters, with no cache file and the external API down.
\<close>

theorem fallback_cache_counterexample:
  "passes_checks unknown_to_usd \<and>
   cache_read (no_cache (convert_key sample_php unknown_to_usd))
     (s_time (upstream_down 0 :: convert_data server_env)) 300 = None \<and>
   failed u_success (s_upstream (upstream_down 0)) \<and>
   convert_php sample_php (upstream_down 0) no_cache unknown_to_usd =
     (ConvertUnsupported, no_cache, [UpstreamConvert ''XYZ'' ''USD'' 10])"
proof -
  have p: "passes_checks unknown_to_usd" by code_simp
  have n: "strtoupper (trim (q_from unknown_to_usd)) = ''XYZ''"
    "strtoupper (trim (q_to unknown_to_usd)) = ''USD''"
    "floatval (q_amount unknown_to_usd) = 10" by code_simp+
  have m: "map_of php_rates ''XYZ'' = None" by code_simp
  have "convert_php sample_php (upstream_down 0) no_cache unknown_to_usd =
     (ConvertUnsupported, no_cache, [UpstreamConvert ''XYZ'' ''USD'' 10])"
    using m
    by (simp add: convert_php_failed [where cache = no_cache and php = sample_php
          and q = unknown_to_usd and e = "upstream_down 0",
          OF p no_cache_read upstream_down_failed] n convert_catch_unsupported)
  with p no_cache_read [of "convert_key sample_php unknown_to_usd"
      "s_time (upstream_down 0 :: convert_data server_env)" 300]
    upstream_down_failed [of u_success 0]
  show ?thesis by (simp only: simp_thms)
qed

text \<open>
  Claim C10, amended. On \<^verbatim>\<open>convert.php\<close> the cache files are unchanged on every fallback
  path: a cache file is written only after a successful response of the external API.
  So a request that passes the checks of its parameters and is served by the
  static-fallback branch because the external API failed (no fresh cache file stood
  before the call), a request for an unsupported currency included, creates or modifies
  no cache file. Nothing is kept of it: the same request made later, the external API
  failing again, calls the external API again and recomputes the fallback. And the
  response of a fallback conversion reports \<open>cached = false\<close> and \<open>fallback = true\<close>; the
  unsupported-currency error object has no \<^verbatim>\<open>cached\<close> key.
\<close>

theorem fallback_leaves_cache:
  "(passes_checks q \<and> cache_read (cache (convert_key php q)) (s_time e) 300 = None \<and>
    failed u_success (s_upstream e) \<longrightarrow>
      cache_after (convert_php php e cache q) = cache \<and>
      requests (convert_php php e cache q) =
        [UpstreamConvert (strtoupper (trim (q_from q))) (strtoupper (trim (q_to q)))
           (floatval (q_amount q))] \<and>
      (returned (convert_php php e cache q) = ConvertUnsupported \<or>
       (\<exists>r. returned (convert_php php e cache q) = ConvertOk r \<and>
            c_cached r = Some False \<and> c_fallback r = Some True))) \<and>
   (passes_checks q \<and> cache_read (cache (convert_key php q)) (s_time e) 300 = None \<and>
    failed u_success (s_upstream e) \<and> s_time e \<le> s_time e' \<and>
    failed u_success (s_upstream e') \<longrightarrow>
      convert_php php e' (cache_after (convert_php php e cache q)) q =
        (convert_catch (strtoupper (trim (q_from q))) (strtoupper (trim (q_to q)))
           (Some (floatval (q_amount q))) (s_done e'),
         cache,
         [UpstreamConvert (strtoupper (trim (q_from q))) (strtoupper (trim (q_to q)))
            (floatval (q_amount q))])) \<and>
   (cache_after (convert_php php e cache q) \<noteq> cache \<longrightarrow>
      passes_checks q \<and> \<not> failed u_success (s_upstream e))"
proof (intro conjI impI)
  assume a: "passes_checks q \<and> cache_read (cache (convert_key php q)) (s_time e) 300 = None \<and>
    failed u_success (s_upstream e)"
  then have c: "convert_php php e cache q =
       (convert_catch (strtoupper (trim (q_from q))) (strtoupper (trim (q_to q)))
          (Some (floatval (q_amount q))) (s_done e),
        cache,
        [UpstreamConvert (strtoupper (trim (q_from q))) (strtoupper (trim (q_to q)))
           (floatval (q_amount q))])"
    by (intro convert_php_failed) blast+
  then show "cache_after (convert_php php e cache q) = cache" by (simp add: cache_after_def)
  from c show "requests (convert_php php e cache q) =
        [UpstreamConvert (strtoupper (trim (q_from q))) (strtoupper (trim (q_to q)))
           (floatval (q_amount q))]"
    by (simp add: requests_def)
  from c convert_catch_some_cases [of "strtoupper (trim (q_from q))"
      "strtoupper (trim (q_to q))" "floatval (q_amount q)" "s_done e"]
  show "returned (convert_php php e cache q) = ConvertUnsupported \<or>
       (\<exists>r. returned (convert_php php e cache q) = ConvertOk r \<and>
            c_cached r = Some False \<and> c_fallback r = Some True)"
    by (simp add: returned_def)
next
  assume a: "passes_checks q \<and> cache_read (cache (convert_key php q)) (s_time e) 300 = None \<and>
    failed u_success (s_upstream e) \<and> s_time e \<le> s_time e' \<and>
    failed u_success (s_upstream e')"
  then have "convert_php php e cache q =
       (convert_catch (strtoupper (trim (q_from q))) (strtoupper (trim (q_to q)))
          (Some (floatval (q_amount q))) (s_done e),
        cache,
        [UpstreamConvert (strtoupper (trim (q_from q))) (strtoupper (trim (q_to q)))
           (floatval (q_amount q))])"
    by (intro convert_php_failed) blast+
  then have same: "cache_after (convert_php php e cache q) = cache"
    by (simp add: cache_after_def)
  from a have "cache_read (cache (convert_key php q)) (s_time e') 300 = None"
    by (blast intro: cache_read_later)
  with a show "convert_php php e' (cache_after (convert_php php e cache q)) q =
        (convert_catch (strtoupper (trim (q_from q))) (strtoupper (trim (q_to q)))
           (Some (floatval (q_amount q))) (s_done e'),
         cache,
         [UpstreamConvert (strtoupper (trim (q_from q))) (strtoupper (trim (q_to q)))
            (floatval (q_amount q))])"
    unfolding same by (intro convert_php_failed) blast+
next
  assume "cache_after (convert_php php e cache q) \<noteq> cache"
  then have "fst (snd (convert_php php e cache q)) \<noteq> cache" by (simp add: cache_after_def)
  then have w: "passes_checks q \<and> \<not> failed u_success (s_upstream e)"
    by (rule convert_php_writes_only_live)
  from w show "passes_checks q" by simp
  from w show "\<not> failed u_success (s_upstream e)" by simp
qed

lemma upstream_up_not_failed: "\<not> failed u_success (s_upstream (upstream_up t))"
  by (simp add: upstream_up_def failed_def)

theorem fallback_leaves_cache_witness:
  "passes_checks rub_to_usd \<and>
   cache_read (no_cache (convert_key sample_php rub_to_usd))
     (s_time (upstream_down 0 :: convert_data server_env)) 300 = None \<and>
   failed u_success (s_upstream (upstream_down 0)) \<and>
   s_time (upstream_down 0 :: convert_data server_env) \<le>
     s_time (upstream_down 60 :: convert_data server_env) \<and>
   failed u_success (s_upstream (upstream_down 60)) \<and>
   cache_after (convert_php sample_php (upstream_down 0) no_cache rub_to_usd) = no_cache \<and>
   requests (convert_php sample_php (upstream_down 0) no_cache rub_to_usd) =
     [UpstreamConvert ''RUB'' ''USD'' 100] \<and>
   (\<exists>r. returned (convert_php sample_php (upstream_down 0) no_cache rub_to_usd) = ConvertOk r \<and>
        c_cached r = Some False \<and> c_fallback r = Some True) \<and>
   convert_php sample_php (upstream_down 60)
       (cache_after (convert_php sample_php (upstream_down 0) no_cache rub_to_usd)) rub_to_usd =
     (convert_catch ''RUB'' ''USD'' (Some 100) 61, no_cache,
      [UpstreamConvert ''RUB'' ''USD'' 100]) \<and>
   cache_after (convert_php sample_php (upstream_up 0) no_cache usd_to_eur) \<noteq> no_cache \<and>
   passes_checks usd_to_eur \<and> \<not> failed u_success (s_upstream (upstream_up 0))"
proof -
  have p: "passes_checks rub_to_usd" by code_simp
  have n: "strtoupper (trim (q_from rub_to_usd)) = ''RUB''"
    "strtoupper (trim (q_to rub_to_usd)) = ''USD''"
    "floatval (q_amount rub_to_usd) = 100" by code_simp+
  have m: "map_of php_rates ''RUB'' = Some 75" "map_of php_rates ''USD'' = Some 1"
    by code_simp+
  have cr: "cache_read (no_cache (convert_key sample_php rub_to_usd))
      (s_time (upstream_down 0 :: convert_data server_env)) 300 = None"
    by (rule no_cache_read)
  have f0: "failed u_success (s_upstream (upstream_down 0))" by (rule upstream_down_failed)
  have f60: "failed u_success (s_upstream (upstream_down 60))" by (rule upstream_down_failed)
  have le: "s_time (upstream_down 0 :: convert_data server_env) \<le>
      s_time (upstream_down 60 :: convert_data server_env)"
    by (simp add: upstream_down_def)
  have d: "s_done (upstream_down 60 :: convert_data server_env) = 61"
    by (simp add: upstream_down_def)
  have H1: "passes_checks rub_to_usd \<and>
      cache_read (no_cache (convert_key sample_php rub_to_usd))
        (s_time (upstream_down 0 :: convert_data server_env)) 300 = None \<and>
      failed u_success (s_upstream (upstream_down 0))"
    using p cr f0 by (simp only: simp_thms)
  have H2: "passes_checks rub_to_usd \<and>
      cache_read (no_cache (convert_key sample_php rub_to_usd))
        (s_time (upstream_down 0 :: convert_data server_env)) 300 = None \<and>
      failed u_success (s_upstream (upstream_down 0)) \<and>
      s_time (upstream_down 0 :: convert_data server_env) \<le>
        s_time (upstream_down 60 :: convert_data server_env) \<and>
      failed u_success (s_upstream (upstream_down 60))"
    using p cr f0 le f60 by (simp only: simp_thms)
  note t = fallback_leaves_cache [where php = sample_php and e = "upstream_down 0"
      and cache = no_cache and q = rub_to_usd and e' = "upstream_down 60"]
  note 1 = mp [OF conjunct1 [OF t] H1]
  from 1 have a1: "cache_after (convert_php sample_php (upstream_down 0) no_cache rub_to_usd) =
      no_cache"
    by (rule conjunct1)
  from 1 have a2: "requests (convert_php sample_php (upstream_down 0) no_cache rub_to_usd) =
     [UpstreamConvert ''RUB'' ''USD'' 100]"
    by (simp add: n)
  have "returned (convert_php sample_php (upstream_down 0) no_cache rub_to_usd) \<noteq>
      ConvertUnsupported"
    by (simp add: returned_def convert_php_failed [where cache = no_cache and php = sample_php
          and q = rub_to_usd and e = "upstream_down 0", OF p cr f0] n
          convert_catch_supported [OF m])
  with 1 have a3:
    "\<exists>r. returned (convert_php sample_php (upstream_down 0) no_cache rub_to_usd) = ConvertOk r \<and>
        c_cached r = Some False \<and> c_fallback r = Some True"
    by blast
  from mp [OF conjunct1 [OF conjunct2 [OF t]] H2]
  have a4: "convert_php sample_php (upstream_down 60)
       (cache_after (convert_php sample_php (upstream_down 0) no_cache rub_to_usd)) rub_to_usd =
     (convert_catch ''RUB'' ''USD'' (Some 100) 61, no_cache,
      [UpstreamConvert ''RUB'' ''USD'' 100])"
    by (simp add: n d)
  have p2: "passes_checks usd_to_eur" by code_simp
  have up: "s_upstream (upstream_up 0) =
      Answer \<lparr>u_success = True, u_from = ''USD'', u_to = ''EUR'', u_amount = 100,
              u_result = 92, u_rate = 92 / 100\<rparr>"
    by (simp add: upstream_up_def)
  have "cache_after (convert_php sample_php (upstream_up 0) no_cache usd_to_eur)
          (convert_key sample_php usd_to_eur) \<noteq> None"
    by (simp add: cache_after_def convert_php_live [where cache = no_cache and php = sample_php
          and q = usd_to_eur and e = "upstream_up 0", OF p2 no_cache_read up])
  moreover have "no_cache (convert_key sample_php usd_to_eur) = None"
    by (simp add: no_cache_def)
  ultimately have ne:
    "cache_after (convert_php sample_php (upstream_up 0) no_cache usd_to_eur) \<noteq> no_cache"
    by metis
  note t' = fallback_leaves_cache [where php = sample_php and e = "upstream_up 0"
      and cache = no_cache and q = usd_to_eur]
  note 3 = mp [OF conjunct2 [OF conjunct2 [OF t']] ne]
  from p cr f0 le f60 a1 a2 a3 a4 ne 3 show ?thesis by (intro conjI) blast+
qed

subsection \<open>The loops that synthesise a time series\<close>


lemma upto_step: "i \<le> j + 1 \<Longrightarrow> [i..j] = (if i \<le> j then i # [i + 1..j] else [])"
  by (simp add: upto_rec1)








lemma length_upto_days: "0 \<le> days \<Longrightarrow> length [today - days..today] = nat days + 1"
  by simp


subsection \<open>Time series\<close>

lemma fresh_client_get: "cache_get fresh_client k t = None"
  by (simp add: fresh_client_def cache_get_def)

lemma getTimeSeries_hit:
  "cache_get cache (series_cache_key frm to days) (w_now w) = Some d \<Longrightarrow>
     getTimeSeries w cache frm to days = (Inr d, cache, [])"
  by (simp add: getTimeSeries_def series_cache_key_def Let_def)

lemma getTimeSeries_backend:
  "cache_get cache (series_cache_key frm to days) (w_now w) = None \<Longrightarrow>
     request (w_net w) = Some d \<Longrightarrow>
     getTimeSeries w cache frm to days =
       (Inr (Backend d),
        cache(series_cache_key frm to days \<mapsto> \<lparr>data = Backend d, timestamp = w_later w\<rparr>),
        [TimeseriesRequest (toUpperCase frm) (toUpperCase to) days])"
  by (simp add: getTimeSeries_def series_cache_key_def Let_def)

lemma getTimeSeries_fallback:
  assumes "cache_get cache (series_cache_key frm to days) (w_now w) = None"
    and "request (w_net w) = None"
    and "map_of fallbackRates (toUpperCase frm) = Some rf"
    and "map_of fallbackRates (toUpperCase to) = Some rt"
  shows "getTimeSeries w cache frm to days =
       (Inr (Series \<lparr>ts_from = toUpperCase frm, ts_to = toUpperCase to,
                      ts_rates = fallback_loop (w_random w) (w_later w) (w_offset w) (rt / rf)
                                   days [],
                      ts_fallback = True\<rparr>),
        cache(series_cache_key frm to days \<mapsto>
          \<lparr>data = Series \<lparr>ts_from = toUpperCase frm, ts_to = toUpperCase to,
                           ts_rates = fallback_loop (w_random w) (w_later w) (w_offset w) (rt / rf)
                                   days [],
                           ts_fallback = True\<rparr>,
           timestamp = w_later w\<rparr>),
        [TimeseriesRequest (toUpperCase frm) (toUpperCase to) days])"
proof -
  have "rf \<noteq> 0" "rt \<noteq> 0" using assms(3,4) by (auto dest: fallbackRates_nonzero)
  with assms show ?thesis
    by (simp add: getTimeSeries_def series_cache_key_def Let_def)
qed

lemma getTimeSeries_unsupported:
  assumes "cache_get cache (series_cache_key frm to days) (w_now w) = None"
    and "request (w_net w) = None"
    and "map_of fallbackRates (toUpperCase frm) = None \<or>
         map_of fallbackRates (toUpperCase to) = None"
  shows "getTimeSeries w cache frm to days =
       (Inl UnsupportedCurrency, cache,
        [TimeseriesRequest (toUpperCase frm) (toUpperCase to) days])"
  using assms
  by (auto simp: getTimeSeries_def series_cache_key_def Let_def split: option.splits)

lemma timeseries_php_hit:
  "\<not> php_empty (sq_from q) \<Longrightarrow> \<not> php_empty (sq_to q) \<Longrightarrow>
     cache_read (cache (series_key php q)) (s_time e) 1800 = Some cached \<Longrightarrow>
     timeseries_php php e cache q = (SeriesOk (cached\<lparr>r_cached := True\<rparr>), cache, [])"
  by (simp add: timeseries_php_def series_key_def Let_def)

lemma timeseries_php_failed:
  "\<not> php_empty (sq_from q) \<Longrightarrow> \<not> php_empty (sq_to q) \<Longrightarrow>
     cache_read (cache (series_key php q)) (s_time e) 1800 = None \<Longrightarrow>
     failed tu_success (s_upstream e) \<Longrightarrow>
     timeseries_php php e cache q =
       (SeriesError UpstreamFailed, cache,
        [UpstreamTimeseries (s_today e - max 1 (min (sq_days q) 365)) (s_today e)
           (strtoupper (trim (sq_from q))) (strtoupper (trim (sq_to q)))])"
  by (auto simp: timeseries_php_def series_key_def failed_def Let_def split: answer.splits)






subsection \<open>The symbol table\<close>

lemma getSymbols_hit:
  "cache_get c ''symbols'' (w_now w) = Some d \<Longrightarrow> getSymbols w c = (Inr d, c, [])"
  by (simp add: getSymbols_def Let_def)

lemma getSymbols_backend:
  "cache_get c ''symbols'' (w_now w) = None \<Longrightarrow> request (w_net w) = Some d \<Longrightarrow>
     getSymbols w c =
       (Inr (Backend d), c(''symbols'' \<mapsto> \<lparr>data = Backend d, timestamp = w_later w\<rparr>),
        [SymbolsRequest])"
  by (simp add: getSymbols_def Let_def)

lemma getSymbols_fallback:
  "cache_get c ''symbols'' (w_now w) = None \<Longrightarrow> request (w_net w) = None \<Longrightarrow>
     getSymbols w c =
       (Inr (Symbols \<lparr>sd_success = True, sd_symbols = fallbackSymbols, sd_cached = False,
                       sd_timestamp = w_later w, sd_fallback = True\<rparr>),
        c(''symbols'' \<mapsto>
          \<lparr>data = Symbols \<lparr>sd_success = True, sd_symbols = fallbackSymbols, sd_cached = False,
                            sd_timestamp = w_later w, sd_fallback = True\<rparr>,
           timestamp = w_later w\<rparr>),
        [SymbolsRequest])"
  by (simp add: getSymbols_def Let_def)

lemma getSymbols_miss:
  assumes "cache_get c ''symbols'' (w_now w) = None"
  shows "\<exists>d. getSymbols w c =
     (Inr d, c(''symbols'' \<mapsto> \<lparr>data = d, timestamp = w_later w\<rparr>), [SymbolsRequest])"
proof (cases "request (w_net w)")
  case None
  from getSymbols_fallback [OF assms this] show ?thesis by blast
next
  case (Some d)
  from getSymbols_backend [OF assms this] show ?thesis by blast
qed

lemma symbols_php_hit:
  "cache_read f (s_time e) 3600 = Some r \<Longrightarrow> symbols_php e f = (r, f, [])"
  by (simp add: symbols_php_def Let_def)

lemma symbols_php_failed:
  "cache_read f (s_time e) 3600 = None \<Longrightarrow> failed su_success (s_upstream e) \<Longrightarrow>
     symbols_php e f =
       (\<lparr>sr_success = True, sr_symbols = php_fallbackSymbols, sr_cached = False,
         sr_timestamp = s_done e, sr_fallback = Some True\<rparr>, f, [UpstreamSymbols])"
  by (auto simp: symbols_php_def failed_def Let_def split: answer.splits)

lemma symbols_php_live:
  "cache_read f (s_time e) 3600 = None \<Longrightarrow> s_upstream e = Answer d \<Longrightarrow> su_success d \<Longrightarrow>
     symbols_php e f =
       (\<lparr>sr_success = True, sr_symbols = su_symbols d, sr_cached = False,
         sr_timestamp = s_done e, sr_fallback = None\<rparr>,
        Some \<lparr>content = Some \<lparr>sr_success = True, sr_symbols = su_symbols d, sr_cached = False,
                               sr_timestamp = s_done e, sr_fallback = None\<rparr>,
              mtime = s_done e\<rparr>,
        [UpstreamSymbols])"
  by (simp add: symbols_php_def Let_def)

text \<open>
  Claim C3. \<^verbatim>\<open>getSymbols\<close> never fails: whatever the cache holds and whatever the request
  does, it returns a value. When the primary tier fails (no fresh cache entry, and the
  request throws) the value returned is the built-in fallback table, marked
  \<open>fallback = true\<close>. The endpoint \<^verbatim>\<open>symbols.php\<close> does the same when the external API
  fails.
\<close>

theorem symbols_never_fail:
  "(\<exists>r. returned (getSymbols w c) = Inr r) \<and>
   (cache_get c ''symbols'' (w_now w) = None \<and> request (w_net w) = None \<longrightarrow>
      returned (getSymbols w c) =
        Inr (Symbols \<lparr>sd_success = True, sd_symbols = fallbackSymbols, sd_cached = False,
                      sd_timestamp = w_later w, sd_fallback = True\<rparr>)) \<and>
   (cache_read f (s_time e) 3600 = None \<and> failed su_success (s_upstream e) \<longrightarrow>
      returned (symbols_php e f) =
        \<lparr>sr_success = True, sr_symbols = php_fallbackSymbols, sr_cached = False,
         sr_timestamp = s_done e, sr_fallback = Some True\<rparr>)"
proof (intro conjI impI)
  show "\<exists>r. returned (getSymbols w c) = Inr r"
  proof (cases "cache_get c ''symbols'' (w_now w)")
    case None
    from getSymbols_miss [OF this] show ?thesis by (auto simp: returned_def)
  next
    case (Some d)
    from getSymbols_hit [OF this] show ?thesis by (simp add: returned_def)
  qed
next
  assume "cache_get c ''symbols'' (w_now w) = None \<and> request (w_net w) = None"
  then show "returned (getSymbols w c) =
        Inr (Symbols \<lparr>sd_success = True, sd_symbols = fallbackSymbols, sd_cached = False,
                      sd_timestamp = w_later w, sd_fallback = True\<rparr>)"
    by (simp add: getSymbols_fallback returned_def)
next
  assume "cache_read f (s_time e) 3600 = None \<and> failed su_success (s_upstream e)"
  then show "returned (symbols_php e f) =
        \<lparr>sr_success = True, sr_symbols = php_fallbackSymbols, sr_cached = False,
         sr_timestamp = s_done e, sr_fallback = Some True\<rparr>"
    by (simp add: symbols_php_failed returned_def)
qed

theorem symbols_never_fail_witness:
  "cache_get fresh_client ''symbols'' (w_now offline) = None \<and>
   request (w_net offline) = None \<and>
   returned (getSymbols offline fresh_client) =
     Inr (Symbols \<lparr>sd_success = True, sd_symbols = fallbackSymbols, sd_cached = False,
                   sd_timestamp = w_later offline, sd_fallback = True\<rparr>) \<and>
   cache_read None (s_time (upstream_down 0 :: symbols_upstream server_env)) 3600 =
     (None :: symbols_reply option) \<and>
   failed su_success (s_upstream (upstream_down 0)) \<and>
   returned (symbols_php (upstream_down 0) None) =
     \<lparr>sr_success = True, sr_symbols = php_fallbackSymbols, sr_cached = False,
      sr_timestamp = s_done (upstream_down 0 :: symbols_upstream server_env),
      sr_fallback = Some True\<rparr>"
proof -
  have H1: "cache_get fresh_client ''symbols'' (w_now offline) = None \<and>
      request (w_net offline) = None"
    using offline_fails by (simp add: fresh_client_def cache_get_def)
  have H2: "cache_read None (s_time (upstream_down 0 :: symbols_upstream server_env)) 3600 =
      (None :: symbols_reply option) \<and>
      failed su_success (s_upstream (upstream_down 0))"
    using upstream_down_failed [of su_success 0] by (simp add: cache_read_def)
  note t = symbols_never_fail [where w = offline and c = fresh_client
      and f = None and e = "upstream_down 0"]
  note 1 = mp [OF conjunct1 [OF conjunct2 [OF t]] H1]
  note 2 = mp [OF conjunct2 [OF conjunct2 [OF t]] H2]
  from H1 1 H2 2 show ?thesis by blast
qed

subsection \<open>Staleness of cache entries\<close>

lemma cache_get_entry:
  "c k = Some en \<Longrightarrow>
     cache_get c k now = (if now - timestamp en < cacheTimeout then Some (data en) else None)"
  by (simp add: cache_get_def)

lemma cache_read_file:
  "content cf = Some x \<Longrightarrow>
     cache_read (Some cf) now ttl = (if now - mtime cf < ttl then Some x else None)"
  by (simp add: cache_read_def)

lemma getSymbols_requests:
  "requests (getSymbols w c) =
     (if cache_get c ''symbols'' (w_now w) = None then [SymbolsRequest] else [])"
proof (cases "cache_get c ''symbols'' (w_now w)")
  case None
  from getSymbols_miss [OF this] show ?thesis by (auto simp: requests_def None)
next
  case (Some d)
  from getSymbols_hit [OF this] show ?thesis by (simp add: requests_def Some)
qed

lemma getTimeSeries_requests:
  "requests (getTimeSeries w c frm to days) =
     (if cache_get c (series_cache_key frm to days) (w_now w) = None
      then [TimeseriesRequest (toUpperCase frm) (toUpperCase to) days] else [])"
  by (simp add: getTimeSeries_def series_cache_key_def requests_def Let_def
        split: option.splits)

lemma symbols_php_requests:
  "requests (symbols_php e f) =
     (if cache_read f (s_time e) 3600 = None then [UpstreamSymbols] else [])"
  by (simp add: symbols_php_def requests_def Let_def split: option.splits answer.splits)

lemma convert_php_requests:
  "passes_checks q \<Longrightarrow>
     requests (convert_php php e cache q) =
       (if cache_read (cache (convert_key php q)) (s_time e) 300 = None
        then [UpstreamConvert (strtoupper (trim (q_from q))) (strtoupper (trim (q_to q)))
                (floatval (q_amount q))]
        else [])"
  by (simp add: convert_php_def passes_checks_def convert_key_def requests_def Let_def
        split: option.splits answer.splits)

lemma timeseries_php_requests:
  "\<not> php_empty (sq_from q) \<Longrightarrow> \<not> php_empty (sq_to q) \<Longrightarrow>
     requests (timeseries_php php e cache q) =
       (if cache_read (cache (series_key php q)) (s_time e) 1800 = None
        then [UpstreamTimeseries (s_today e - max 1 (min (sq_days q) 365)) (s_today e)
                (strtoupper (trim (sq_from q))) (strtoupper (trim (sq_to q)))]
        else [])"
  by (simp add: timeseries_php_def series_key_def requests_def Let_def
        split: option.splits answer.splits)

text \<open>
  Claim C5, as stated, fails for the lifetimes it names. The client has one lifetime,
  five minutes, for every entry: its symbols entry is stale ten minutes (600000 ms)
  after it was stored, and \<^verbatim>\<open>getSymbols\<close> asks the back end again. The endpoint
  \<^verbatim>\<open>timeseries.php\<close> keeps a file for thirty minutes: ten minutes (600 s) after the file
  was written the request is still served from it, with no call to the external API.
\<close>

theorem cache_lifetime_counterexample:
  "requests (getSymbols (at_ms 600000) client_cache) = [SymbolsRequest] \<and>
   requests (timeseries_php sample_php (upstream_down 600) series_dir week) = []"
proof -
  have "cache_get client_cache ''symbols'' (w_now (at_ms 600000)) = None"
    by (simp add: cache_get_def client_cache_def at_ms_def cacheTimeout_def)
  then have 1: "requests (getSymbols (at_ms 600000) client_cache) = [SymbolsRequest]"
    by (simp add: getSymbols_requests)
  have g: "\<not> php_empty (sq_from week)" "\<not> php_empty (sq_to week)" by code_simp+
  have "cache_read (series_dir (series_key sample_php week))
      (s_time (upstream_down 600 :: series_upstream server_env)) 1800 = Some stored_series"
    by (simp add: cache_read_def series_dir_def upstream_down_def)
  then have 2: "requests (timeseries_php sample_php (upstream_down 600) series_dir week) = []"
    by (simp add: timeseries_php_requests [OF g])
  from 1 2 show ?thesis by (simp only: simp_thms)
qed

text \<open>
  Claim C5, amended. A cache entry is stale exactly when \<open>now - storedAt \<ge> ttl\<close>: an
  operation that finds an entry for its key asks its inner source if and only if the
  entry is that old. The lifetime is one constant per caching component and operation:
  in the client 300000 ms (five minutes) for the symbols and for a time series alike;
  on the server 3600 s for \<^verbatim>\<open>symbols.php\<close>, 300 s for \<^verbatim>\<open>convert.php\<close> and 1800 s (thirty
  minutes) for \<^verbatim>\<open>timeseries.php\<close>.
\<close>

theorem cache_entry_stale_iff:
  "(c ''symbols'' = Some en \<longrightarrow>
      (requests (getSymbols w c) \<noteq> [] \<longleftrightarrow> 300000 \<le> w_now w - timestamp en)) \<and>
   (c (series_cache_key frm to days) = Some en' \<longrightarrow>
      (requests (getTimeSeries w c frm to days) \<noteq> [] \<longleftrightarrow> 300000 \<le> w_now w - timestamp en')) \<and>
   (content sf = Some x \<longrightarrow>
      (requests (symbols_php es (Some sf)) \<noteq> [] \<longleftrightarrow> 3600 \<le> s_time es - mtime sf)) \<and>
   (passes_checks q \<and> cache (convert_key php q) = Some cf \<and> content cf = Some y \<longrightarrow>
      (requests (convert_php php ec cache q) \<noteq> [] \<longleftrightarrow> 300 \<le> s_time ec - mtime cf)) \<and>
   (\<not> php_empty (sq_from sq) \<and> \<not> php_empty (sq_to sq) \<and>
    dir (series_key php sq) = Some tf \<and> content tf = Some z \<longrightarrow>
      (requests (timeseries_php php et dir sq) \<noteq> [] \<longleftrightarrow> 1800 \<le> s_time et - mtime tf))"
proof (intro conjI impI)
  assume "c ''symbols'' = Some en"
  then show "requests (getSymbols w c) \<noteq> [] \<longleftrightarrow> 300000 \<le> w_now w - timestamp en"
    by (simp add: getSymbols_requests cache_get_entry cacheTimeout_def)
next
  assume "c (series_cache_key frm to days) = Some en'"
  then show "requests (getTimeSeries w c frm to days) \<noteq> [] \<longleftrightarrow>
      300000 \<le> w_now w - timestamp en'"
    by (simp add: getTimeSeries_requests cache_get_entry cacheTimeout_def)
next
  assume "content sf = Some x"
  then show "requests (symbols_php es (Some sf)) \<noteq> [] \<longleftrightarrow> 3600 \<le> s_time es - mtime sf"
    by (simp add: symbols_php_requests cache_read_file)
next
  assume "passes_checks q \<and> cache (convert_key php q) = Some cf \<and> content cf = Some y"
  then show "requests (convert_php php ec cache q) \<noteq> [] \<longleftrightarrow> 300 \<le> s_time ec - mtime cf"
    by (simp add: convert_php_requests cache_read_file)
next
  assume "\<not> php_empty (sq_from sq) \<and> \<not> php_empty (sq_to sq) \<and>
    dir (series_key php sq) = Some tf \<and> content tf = Some z"
  then show "requests (timeseries_php php et dir sq) \<noteq> [] \<longleftrightarrow>
      1800 \<le> s_time et - mtime tf"
    by (simp add: timeseries_php_requests cache_read_file)
qed

theorem cache_entry_stale_iff_witness:
  "client_cache ''symbols'' = Some \<lparr>data = Backend 7, timestamp = 0\<rparr> \<and>
   requests (getSymbols (at_ms 299999) client_cache) = [] \<and>
   client_cache (series_cache_key ''USD'' ''EUR'' 7) = Some \<lparr>data = Backend 8, timestamp = 0\<rparr> \<and>
   requests (getTimeSeries (at_ms 300000) client_cache ''USD'' ''EUR'' 7) \<noteq> [] \<and>
   content symbols_file = Some stored_symbols \<and>
   requests (symbols_php (upstream_down 3599) (Some symbols_file)) = [] \<and>
   passes_checks usd_to_eur \<and>
   convert_dir (convert_key sample_php usd_to_eur) =
     Some \<lparr>content = Some stored_conversion, mtime = 0\<rparr> \<and>
   requests (convert_php sample_php (upstream_down 300) convert_dir usd_to_eur) \<noteq> [] \<and>
   \<not> php_empty (sq_from week) \<and> \<not> php_empty (sq_to week) \<and>
   series_dir (series_key sample_php week) = Some \<lparr>content = Some stored_series, mtime = 0\<rparr> \<and>
   requests (timeseries_php sample_php (upstream_down 1799) series_dir week) = []"
proof -
  have k: "series_cache_key ''USD'' ''EUR'' 7 \<noteq> ''symbols''" by code_simp
  have e1: "client_cache ''symbols'' = Some \<lparr>data = Backend 7, timestamp = 0\<rparr>"
    using k by (simp add: client_cache_def)
  have e2: "client_cache (series_cache_key ''USD'' ''EUR'' 7) =
      Some \<lparr>data = Backend 8, timestamp = 0\<rparr>"
    by (simp add: client_cache_def)
  have e3: "content symbols_file = Some stored_symbols" by (simp add: symbols_file_def)
  have p: "passes_checks usd_to_eur" by code_simp
  have e4: "convert_dir (convert_key sample_php usd_to_eur) =
      Some \<lparr>content = Some stored_conversion, mtime = 0\<rparr>"
    by (simp add: convert_dir_def)
  have H4: "passes_checks usd_to_eur \<and>
      convert_dir (convert_key sample_php usd_to_eur) =
        Some \<lparr>content = Some stored_conversion, mtime = 0\<rparr> \<and>
      content \<lparr>content = Some stored_conversion, mtime = 0\<rparr> = Some stored_conversion"
    using p e4 by simp
  have g: "\<not> php_empty (sq_from week)" "\<not> php_empty (sq_to week)" by code_simp+
  have e5: "series_dir (series_key sample_php week) =
      Some \<lparr>content = Some stored_series, mtime = 0\<rparr>"
    by (simp add: series_dir_def)
  have H5: "\<not> php_empty (sq_from week) \<and> \<not> php_empty (sq_to week) \<and>
      series_dir (series_key sample_php week) =
        Some \<lparr>content = Some stored_series, mtime = 0\<rparr> \<and>
      content \<lparr>content = Some stored_series, mtime = 0\<rparr> = Some stored_series"
    using g e5 by simp
  note t1 = cache_entry_stale_iff [where c = client_cache and w = "at_ms 299999"
      and en = "\<lparr>data = Backend 7, timestamp = 0\<rparr>"]
  note t2 = cache_entry_stale_iff [where c = client_cache and w = "at_ms 300000"
      and frm = "''USD''" and to = "''EUR''" and days = 7
      and en' = "\<lparr>data = Backend 8, timestamp = 0\<rparr>"]
  note t3 = cache_entry_stale_iff [where sf = symbols_file and x = stored_symbols
      and es = "upstream_down 3599"]
  note t4 = cache_entry_stale_iff [where q = usd_to_eur and php = sample_php
      and cache = convert_dir and cf = "\<lparr>content = Some stored_conversion, mtime = 0\<rparr>"
      and y = stored_conversion and ec = "upstream_down 300"]
  note t5 = cache_entry_stale_iff [where sq = week and php = sample_php and dir = series_dir
      and tf = "\<lparr>content = Some stored_series, mtime = 0\<rparr>" and z = stored_series
      and et = "upstream_down 1799"]
  from mp [OF conjunct1 [OF t1] e1]
  have 1: "requests (getSymbols (at_ms 299999) client_cache) = []"
    by (simp add: at_ms_def)
  from mp [OF conjunct1 [OF conjunct2 [OF t2]] e2]
  have 2: "requests (getTimeSeries (at_ms 300000) client_cache ''USD'' ''EUR'' 7) \<noteq> []"
    by (simp add: at_ms_def)
  from mp [OF conjunct1 [OF conjunct2 [OF conjunct2 [OF t3]]] e3]
  have 3: "requests (symbols_php (upstream_down 3599) (Some symbols_file)) = []"
    by (simp add: upstream_down_def symbols_file_def)
  from mp [OF conjunct1 [OF conjunct2 [OF conjunct2 [OF conjunct2 [OF t4]]]] H4]
  have 4: "requests (convert_php sample_php (upstream_down 300) convert_dir usd_to_eur) \<noteq> []"
    by (simp add: upstream_down_def)
  from mp [OF conjunct2 [OF conjunct2 [OF conjunct2 [OF conjunct2 [OF t5]]]] H5]
  have 5: "requests (timeseries_php sample_php (upstream_down 1799) series_dir week) = []"
    by (simp add: upstream_down_def)
  from e1 1 e2 2 e3 3 p e4 4 g e5 5 show ?thesis by blast
qed

subsection \<open>Two calls with the same parameters\<close>

lemma cache_get_stored:
  "cache_get (c(k \<mapsto> \<lparr>data = d, timestamp = t\<rparr>)) k now =
     (if now - t < cacheTimeout then Some d else None)"
  by (simp add: cache_get_def)

lemma getSymbols_twice:
  assumes "w_now w1 \<le> w_later w1" and "w_now w2 - w_now w1 < cacheTimeout"
  shows "length (requests (getSymbols w1 c) @
                 requests (getSymbols w2 (cache_after (getSymbols w1 c)))) \<le> 1 \<and>
         (requests (getSymbols w1 c) \<noteq> [] \<longrightarrow>
            getSymbols w2 (cache_after (getSymbols w1 c)) =
              (returned (getSymbols w1 c), cache_after (getSymbols w1 c), []))"
proof (cases "cache_get c ''symbols'' (w_now w1)")
  case (Some d)
  then have "requests (getSymbols w1 c) = []" by (simp add: getSymbols_requests)
  then show ?thesis by (simp add: getSymbols_requests)
next
  case None
  from getSymbols_miss [OF this] obtain d where
    a: "getSymbols w1 c =
      (Inr d, c(''symbols'' \<mapsto> \<lparr>data = d, timestamp = w_later w1\<rparr>), [SymbolsRequest])"
    by blast
  from assms have "w_now w2 - w_later w1 < cacheTimeout" by simp
  then have "cache_get (c(''symbols'' \<mapsto> \<lparr>data = d, timestamp = w_later w1\<rparr>)) ''symbols''
      (w_now w2) = Some d"
    by (simp add: cache_get_stored)
  from getSymbols_hit [OF this] a show ?thesis
    by (simp add: requests_def cache_after_def returned_def)
qed

lemma getSymbols_after_ttl:
  assumes "cacheTimeout \<le> w_now w2 - w_later w1" and "requests (getSymbols w1 c) \<noteq> []"
  shows "requests (getSymbols w2 (cache_after (getSymbols w1 c))) = [SymbolsRequest]"
proof -
  from assms(2) have "cache_get c ''symbols'' (w_now w1) = None"
    by (simp add: getSymbols_requests split: if_splits)
  from getSymbols_miss [OF this] obtain d where
    a: "getSymbols w1 c =
      (Inr d, c(''symbols'' \<mapsto> \<lparr>data = d, timestamp = w_later w1\<rparr>), [SymbolsRequest])"
    by blast
  from assms(1) have "cache_get (c(''symbols'' \<mapsto> \<lparr>data = d, timestamp = w_later w1\<rparr>))
      ''symbols'' (w_now w2) = None"
    by (simp add: cache_get_stored)
  with a show ?thesis by (simp add: getSymbols_requests cache_after_def)
qed

lemma getTimeSeries_miss:
  assumes "cache_get c (series_cache_key frm to days) (w_now w) = None"
    and "returned (getTimeSeries w c frm to days) \<noteq> Inl UnsupportedCurrency"
  shows "\<exists>d. getTimeSeries w c frm to days =
     (Inr d, c(series_cache_key frm to days \<mapsto> \<lparr>data = d, timestamp = w_later w\<rparr>),
      [TimeseriesRequest (toUpperCase frm) (toUpperCase to) days])"
proof (cases "request (w_net w)")
  case (Some d)
  from getTimeSeries_backend [OF assms(1) this] show ?thesis by blast
next
  case None
  show ?thesis
  proof (cases "map_of fallbackRates (toUpperCase frm) = None \<or>
                map_of fallbackRates (toUpperCase to) = None")
    case True
    from getTimeSeries_unsupported [OF assms(1) None True] assms(2) show ?thesis
      by (simp add: returned_def)
  next
    case False
    then obtain rf rt where "map_of fallbackRates (toUpperCase frm) = Some rf"
      and "map_of fallbackRates (toUpperCase to) = Some rt" by auto
    from getTimeSeries_fallback [OF assms(1) None this] show ?thesis by blast
  qed
qed

lemma getTimeSeries_twice:
  assumes "w_now w1 \<le> w_later w1" and "w_now w2 - w_now w1 < cacheTimeout"
    and "returned (getTimeSeries w1 c frm to days) \<noteq> Inl UnsupportedCurrency"
  shows "length (requests (getTimeSeries w1 c frm to days) @
                 requests (getTimeSeries w2 (cache_after (getTimeSeries w1 c frm to days))
                             frm to days)) \<le> 1 \<and>
         (requests (getTimeSeries w1 c frm to days) \<noteq> [] \<longrightarrow>
            getTimeSeries w2 (cache_after (getTimeSeries w1 c frm to days)) frm to days =
              (returned (getTimeSeries w1 c frm to days),
               cache_after (getTimeSeries w1 c frm to days), []))"
proof (cases "cache_get c (series_cache_key frm to days) (w_now w1)")
  case (Some d)
  then have "requests (getTimeSeries w1 c frm to days) = []"
    by (simp add: getTimeSeries_requests)
  then show ?thesis by (simp add: getTimeSeries_requests)
next
  case None
  from getTimeSeries_miss [OF this assms(3)] obtain d where
    a: "getTimeSeries w1 c frm to days =
      (Inr d, c(series_cache_key frm to days \<mapsto> \<lparr>data = d, timestamp = w_later w1\<rparr>),
       [TimeseriesRequest (toUpperCase frm) (toUpperCase to) days])"
    by blast
  from assms have "w_now w2 - w_later w1 < cacheTimeout" by simp
  then have "cache_get (c(series_cache_key frm to days \<mapsto> \<lparr>data = d, timestamp = w_later w1\<rparr>))
      (series_cache_key frm to days) (w_now w2) = Some d"
    by (simp add: cache_get_stored)
  from getTimeSeries_hit [OF this] a show ?thesis
    by (simp add: requests_def cache_after_def returned_def)
qed

lemma getTimeSeries_after_ttl:
  assumes "cacheTimeout \<le> w_now w2 - w_later w1"
    and "requests (getTimeSeries w1 c frm to days) \<noteq> []"
    and "returned (getTimeSeries w1 c frm to days) \<noteq> Inl UnsupportedCurrency"
  shows "requests (getTimeSeries w2 (cache_after (getTimeSeries w1 c frm to days)) frm to days) =
     [TimeseriesRequest (toUpperCase frm) (toUpperCase to) days]"
proof -
  from assms(2) have "cache_get c (series_cache_key frm to days) (w_now w1) = None"
    by (simp add: getTimeSeries_requests split: if_splits)
  from getTimeSeries_miss [OF this assms(3)] obtain d where
    a: "getTimeSeries w1 c frm to days =
      (Inr d, c(series_cache_key frm to days \<mapsto> \<lparr>data = d, timestamp = w_later w1\<rparr>),
       [TimeseriesRequest (toUpperCase frm) (toUpperCase to) days])"
    by blast
  from assms(1) have "cache_get
      (c(series_cache_key frm to days \<mapsto> \<lparr>data = d, timestamp = w_later w1\<rparr>))
      (series_cache_key frm to days) (w_now w2) = None"
    by (simp add: cache_get_stored)
  with a show ?thesis by (simp add: getTimeSeries_requests cache_after_def)
qed

lemma convert_php_miss_live:
  assumes "\<not> takes_fallback php e cache q"
    and "requests (convert_php php e cache q) \<noteq> []"
  shows "\<exists>r. convert_php php e cache q =
     (ConvertOk r, cache(convert_key php q \<mapsto> \<lparr>content = Some r, mtime = s_done e\<rparr>),
      [UpstreamConvert (strtoupper (trim (q_from q))) (strtoupper (trim (q_to q)))
         (floatval (q_amount q))])"
proof -
  from assms(1) have p: "passes_checks q"
    by (simp add: takes_fallback_def split: if_splits)
  with assms(2) have m: "cache_read (cache (convert_key php q)) (s_time e) 300 = None"
    by (simp add: convert_php_requests split: if_splits)
  with assms(1) p have "\<not> failed u_success (s_upstream e)"
    by (simp add: takes_fallback_def)
  then obtain d where "s_upstream e = Answer d" "u_success d"
    by (auto simp: failed_def split: answer.splits)
  from convert_php_live [where cache = cache and php = php, OF p m this] show ?thesis by blast
qed

lemma convert_php_twice:
  assumes "\<not> takes_fallback php e1 cache q"
    and "s_time e1 \<le> s_done e1" and "s_time e2 - s_time e1 < 300"
  shows "length (requests (convert_php php e1 cache q) @
                 requests (convert_php php e2 (cache_after (convert_php php e1 cache q)) q)) \<le> 1 \<and>
         (requests (convert_php php e1 cache q) \<noteq> [] \<longrightarrow>
            (\<exists>r. returned (convert_php php e1 cache q) = ConvertOk r \<and>
                 convert_php php e2 (cache_after (convert_php php e1 cache q)) q =
                   (ConvertOk (r\<lparr>c_cached := Some True\<rparr>),
                    cache_after (convert_php php e1 cache q), [])))"
proof (cases "requests (convert_php php e1 cache q) = []")
  case True
  from assms(1) have p: "passes_checks q"
    by (simp add: takes_fallback_def split: if_splits)
  from True show ?thesis by (simp add: convert_php_requests [OF p])
next
  case False
  from assms(1) have p: "passes_checks q"
    by (simp add: takes_fallback_def split: if_splits)
  from convert_php_miss_live [OF assms(1) False] obtain r where
    a: "convert_php php e1 cache q =
     (ConvertOk r, cache(convert_key php q \<mapsto> \<lparr>content = Some r, mtime = s_done e1\<rparr>),
      [UpstreamConvert (strtoupper (trim (q_from q))) (strtoupper (trim (q_to q)))
         (floatval (q_amount q))])"
    by blast
  from assms have "s_time e2 - s_done e1 < 300" by simp
  then have "cache_read
      ((cache(convert_key php q \<mapsto> \<lparr>content = Some r, mtime = s_done e1\<rparr>)) (convert_key php q))
      (s_time e2) 300 = Some r"
    by (simp add: cache_read_def)
  from convert_php_hit [where php = php
      and cache = "cache(convert_key php q \<mapsto> \<lparr>content = Some r, mtime = s_done e1\<rparr>)",
      OF p this] a
  show ?thesis
    by (simp add: requests_def cache_after_def returned_def)
qed

lemma convert_php_after_ttl:
  assumes "\<not> takes_fallback php e1 cache q" and "300 \<le> s_time e2 - s_done e1"
    and "requests (convert_php php e1 cache q) \<noteq> []"
  shows "requests (convert_php php e2 (cache_after (convert_php php e1 cache q)) q) =
     [UpstreamConvert (strtoupper (trim (q_from q))) (strtoupper (trim (q_to q)))
        (floatval (q_amount q))]"
proof -
  from assms(1) have p: "passes_checks q"
    by (simp add: takes_fallback_def split: if_splits)
  from convert_php_miss_live [OF assms(1,3)] obtain r where
    a: "convert_php php e1 cache q =
     (ConvertOk r, cache(convert_key php q \<mapsto> \<lparr>content = Some r, mtime = s_done e1\<rparr>),
      [UpstreamConvert (strtoupper (trim (q_from q))) (strtoupper (trim (q_to q)))
         (floatval (q_amount q))])"
    by blast
  from assms(2) have "cache_read
      ((cache(convert_key php q \<mapsto> \<lparr>content = Some r, mtime = s_done e1\<rparr>)) (convert_key php q))
      (s_time e2) 300 = None"
    by (simp add: cache_read_def)
  with a show ?thesis by (simp add: convert_php_requests [OF p] cache_after_def)
qed


text \<open>
  Claim C4, as stated, fails for three of the paths it covers. The client's \<^verbatim>\<open>convert\<close>
  keeps no cache: two calls with the same parameters at the same instant send two
  requests. \<^verbatim>\<open>convert.php\<close> writes no cache file when the external API fails: two
  requests one minute apart call the external API twice. And the client's
  \<^verbatim>\<open>getTimeSeries\<close> stores nothing when it ends in the unsupported-currency error: the
  second call sends the request again.
\<close>

theorem cache_two_calls_counterexample:
  "length (snd (convert online ''USD'' ''EUR'' 100) @
           snd (convert online ''USD'' ''EUR'' 100)) = 2 \<and>
   requests (convert_php sample_php (upstream_down 0) no_cache rub_to_usd) @
   requests (convert_php sample_php (upstream_down 60)
               (cache_after (convert_php sample_php (upstream_down 0) no_cache rub_to_usd))
               rub_to_usd) =
     [UpstreamConvert ''RUB'' ''USD'' 100, UpstreamConvert ''RUB'' ''USD'' 100] \<and>
   requests (getTimeSeries offline fresh_client ''XYZ'' ''USD'' 7) @
   requests (getTimeSeries offline
               (cache_after (getTimeSeries offline fresh_client ''XYZ'' ''USD'' 7))
               ''XYZ'' ''USD'' 7) =
     [TimeseriesRequest ''XYZ'' ''USD'' 7, TimeseriesRequest ''XYZ'' ''USD'' 7]"
proof -
  have "snd (convert online ''USD'' ''EUR'' 100) =
      [ConvertRequest (toUpperCase ''USD'') (toUpperCase ''EUR'') 100]"
    by (rule convert_requests) simp_all
  then have 1: "length (snd (convert online ''USD'' ''EUR'' 100) @
           snd (convert online ''USD'' ''EUR'' 100)) = 2"
    by simp
  have p: "passes_checks rub_to_usd" by code_simp
  have n: "strtoupper (trim (q_from rub_to_usd)) = ''RUB''"
    "strtoupper (trim (q_to rub_to_usd)) = ''USD''" "floatval (q_amount rub_to_usd) = 100"
    by code_simp+
  have a: "convert_php sample_php (upstream_down 0) no_cache rub_to_usd =
      (convert_catch ''RUB'' ''USD'' (Some 100) (s_done (upstream_down 0 :: convert_data server_env)),
       no_cache, [UpstreamConvert ''RUB'' ''USD'' 100])"
    by (simp only: convert_php_failed [where cache = no_cache and php = sample_php
          and q = rub_to_usd and e = "upstream_down 0",
          OF p no_cache_read upstream_down_failed] n)
  have b: "convert_php sample_php (upstream_down 60) no_cache rub_to_usd =
      (convert_catch ''RUB'' ''USD'' (Some 100) (s_done (upstream_down 60 :: convert_data server_env)),
       no_cache, [UpstreamConvert ''RUB'' ''USD'' 100])"
    by (simp only: convert_php_failed [where cache = no_cache and php = sample_php
          and q = rub_to_usd and e = "upstream_down 60",
          OF p no_cache_read upstream_down_failed] n)
  from a b have 2: "requests (convert_php sample_php (upstream_down 0) no_cache rub_to_usd) @
   requests (convert_php sample_php (upstream_down 60)
               (cache_after (convert_php sample_php (upstream_down 0) no_cache rub_to_usd))
               rub_to_usd) =
     [UpstreamConvert ''RUB'' ''USD'' 100, UpstreamConvert ''RUB'' ''USD'' 100]"
    by (simp add: requests_def cache_after_def)
  have cg: "cache_get fresh_client (series_cache_key ''XYZ'' ''USD'' 7) (w_now offline) = None"
    by (simp add: fresh_client_def cache_get_def)
  have m: "map_of fallbackRates (toUpperCase ''XYZ'') = None \<or>
      map_of fallbackRates (toUpperCase ''USD'') = None" by code_simp
  have u: "toUpperCase ''XYZ'' = ''XYZ''" "toUpperCase ''USD'' = ''USD''" by code_simp+
  from getTimeSeries_unsupported [OF cg offline_fails m]
  have 3: "requests (getTimeSeries offline fresh_client ''XYZ'' ''USD'' 7) @
   requests (getTimeSeries offline
               (cache_after (getTimeSeries offline fresh_client ''XYZ'' ''USD'' 7))
               ''XYZ'' ''USD'' 7) =
     [TimeseriesRequest ''XYZ'' ''USD'' 7, TimeseriesRequest ''XYZ'' ''USD'' 7]"
    by (simp add: requests_def cache_after_def u)
  from 1 2 3 show ?thesis by (simp only: simp_thms)
qed

text \<open>
  Claim C4, amended. For the client's \<^verbatim>\<open>getSymbols\<close> and \<^verbatim>\<open>getTimeSeries\<close> and for
  \<^verbatim>\<open>convert.php\<close>, and every fixed tuple of parameters: two calls in sequence whose cache
  checks lie less than one lifetime apart invoke the inner source at most once, and when
  the first call invoked it, the second is served from the entry the first stored, with
  no inner call; a second call made a lifetime or more after the first stored its entry
  invokes the inner source again. For \<^verbatim>\<open>getTimeSeries\<close> the first call must not end in the
  unsupported-currency error, and for \<^verbatim>\<open>convert.php\<close> it must not be served by the \<^verbatim>\<open>catch\<close>
  block: those calls store nothing. The client's \<^verbatim>\<open>convert\<close> keeps no cache: every call
  with valid parameters sends its request.
\<close>

theorem cache_two_calls:
  "(w_now w1 \<le> w_later w1 \<and> w_now w2 - w_now w1 < cacheTimeout \<longrightarrow>
      (let a = getSymbols w1 c; b = getSymbols w2 (cache_after a) in
         length (requests a @ requests b) \<le> 1 \<and>
         (requests a \<noteq> [] \<longrightarrow> b = (returned a, cache_after a, [])))) \<and>
   (cacheTimeout \<le> w_now w2 - w_later w1 \<longrightarrow>
      (let a = getSymbols w1 c; b = getSymbols w2 (cache_after a) in
         requests a \<noteq> [] \<longrightarrow> requests b = [SymbolsRequest])) \<and>
   (w_now w1 \<le> w_later w1 \<and> w_now w2 - w_now w1 < cacheTimeout \<longrightarrow>
      (let a = getTimeSeries w1 c frm to days;
           b = getTimeSeries w2 (cache_after a) frm to days in
         returned a \<noteq> Inl UnsupportedCurrency \<longrightarrow>
           length (requests a @ requests b) \<le> 1 \<and>
           (requests a \<noteq> [] \<longrightarrow> b = (returned a, cache_after a, [])))) \<and>
   (cacheTimeout \<le> w_now w2 - w_later w1 \<longrightarrow>
      (let a = getTimeSeries w1 c frm to days;
           b = getTimeSeries w2 (cache_after a) frm to days in
         requests a \<noteq> [] \<and> returned a \<noteq> Inl UnsupportedCurrency \<longrightarrow>
           requests b = [TimeseriesRequest (toUpperCase frm) (toUpperCase to) days])) \<and>
   (\<not> takes_fallback php e1 cache q \<and> s_time e1 \<le> s_done e1 \<and> s_time e2 - s_time e1 < 300 \<longrightarrow>
      (let a = convert_php php e1 cache q; b = convert_php php e2 (cache_after a) q in
         length (requests a @ requests b) \<le> 1 \<and>
         (requests a \<noteq> [] \<longrightarrow>
            (\<exists>r. returned a = ConvertOk r \<and>
                 b = (ConvertOk (r\<lparr>c_cached := Some True\<rparr>), cache_after a, []))))) \<and>
   (\<not> takes_fallback php e1 cache q \<and> 300 \<le> s_time e2 - s_done e1 \<longrightarrow>
      (let a = convert_php php e1 cache q; b = convert_php php e2 (cache_after a) q in
         requests a \<noteq> [] \<longrightarrow>
           requests b =
             [UpstreamConvert (strtoupper (trim (q_from q))) (strtoupper (trim (q_to q)))
                (floatval (q_amount q))])) \<and>
   (cfrm \<noteq> [] \<and> cto \<noteq> [] \<and> 0 < amount \<longrightarrow>
      snd (convert w cfrm cto amount) =
        [ConvertRequest (toUpperCase cfrm) (toUpperCase cto) amount])"
proof (intro conjI impI)
  assume "w_now w1 \<le> w_later w1 \<and> w_now w2 - w_now w1 < cacheTimeout"
  then show "let a = getSymbols w1 c; b = getSymbols w2 (cache_after a) in
         length (requests a @ requests b) \<le> 1 \<and>
         (requests a \<noteq> [] \<longrightarrow> b = (returned a, cache_after a, []))"
    unfolding Let_def by (intro getSymbols_twice) blast+
next
  assume "cacheTimeout \<le> w_now w2 - w_later w1"
  then show "let a = getSymbols w1 c; b = getSymbols w2 (cache_after a) in
         requests a \<noteq> [] \<longrightarrow> requests b = [SymbolsRequest]"
    unfolding Let_def by (intro impI getSymbols_after_ttl)
next
  assume "w_now w1 \<le> w_later w1 \<and> w_now w2 - w_now w1 < cacheTimeout"
  then show "let a = getTimeSeries w1 c frm to days;
           b = getTimeSeries w2 (cache_after a) frm to days in
         returned a \<noteq> Inl UnsupportedCurrency \<longrightarrow>
           length (requests a @ requests b) \<le> 1 \<and>
           (requests a \<noteq> [] \<longrightarrow> b = (returned a, cache_after a, []))"
    unfolding Let_def by (intro impI getTimeSeries_twice) blast+
next
  assume "cacheTimeout \<le> w_now w2 - w_later w1"
  then show "let a = getTimeSeries w1 c frm to days;
           b = getTimeSeries w2 (cache_after a) frm to days in
         requests a \<noteq> [] \<and> returned a \<noteq> Inl UnsupportedCurrency \<longrightarrow>
           requests b = [TimeseriesRequest (toUpperCase frm) (toUpperCase to) days]"
    unfolding Let_def by (intro impI getTimeSeries_after_ttl) blast+
next
  assume "\<not> takes_fallback php e1 cache q \<and> s_time e1 \<le> s_done e1 \<and>
    s_time e2 - s_time e1 < 300"
  then show "let a = convert_php php e1 cache q; b = convert_php php e2 (cache_after a) q in
         length (requests a @ requests b) \<le> 1 \<and>
         (requests a \<noteq> [] \<longrightarrow>
            (\<exists>r. returned a = ConvertOk r \<and>
                 b = (ConvertOk (r\<lparr>c_cached := Some True\<rparr>), cache_after a, [])))"
    unfolding Let_def by (intro convert_php_twice) blast+
next
  assume "\<not> takes_fallback php e1 cache q \<and> 300 \<le> s_time e2 - s_done e1"
  then show "let a = convert_php php e1 cache q; b = convert_php php e2 (cache_after a) q in
         requests a \<noteq> [] \<longrightarrow>
           requests b =
             [UpstreamConvert (strtoupper (trim (q_from q))) (strtoupper (trim (q_to q)))
                (floatval (q_amount q))]"
    unfolding Let_def by (intro impI convert_php_after_ttl) blast+
next
  assume "cfrm \<noteq> [] \<and> cto \<noteq> [] \<and> 0 < amount"
  then show "snd (convert w cfrm cto amount) =
        [ConvertRequest (toUpperCase cfrm) (toUpperCase cto) amount]"
    by (intro convert_requests) blast+
qed


lemma at_ms_request: "request (w_net (at_ms t)) = Some 9"
  by (simp add: at_ms_def request_def)

theorem cache_two_calls_witness:
  "w_now (at_ms 0) \<le> w_later (at_ms 0) \<and> w_now (at_ms 1000) - w_now (at_ms 0) < cacheTimeout \<and>
   requests (getSymbols (at_ms 0) fresh_client) = [SymbolsRequest] \<and>
   getSymbols (at_ms 1000) (cache_after (getSymbols (at_ms 0) fresh_client)) =
     (returned (getSymbols (at_ms 0) fresh_client),
      cache_after (getSymbols (at_ms 0) fresh_client), []) \<and>
   cacheTimeout \<le> w_now (at_ms 300200) - w_later (at_ms 0) \<and>
   requests (getSymbols (at_ms 300200) (cache_after (getSymbols (at_ms 0) fresh_client))) =
     [SymbolsRequest] \<and>
   requests (getTimeSeries (at_ms 0) fresh_client ''USD'' ''EUR'' 7) =
     [TimeseriesRequest ''USD'' ''EUR'' 7] \<and>
   returned (getTimeSeries (at_ms 0) fresh_client ''USD'' ''EUR'' 7) = Inr (Backend 9) \<and>
   getTimeSeries (at_ms 1000)
     (cache_after (getTimeSeries (at_ms 0) fresh_client ''USD'' ''EUR'' 7)) ''USD'' ''EUR'' 7 =
     (returned (getTimeSeries (at_ms 0) fresh_client ''USD'' ''EUR'' 7),
      cache_after (getTimeSeries (at_ms 0) fresh_client ''USD'' ''EUR'' 7), []) \<and>
   requests (getTimeSeries (at_ms 300200)
     (cache_after (getTimeSeries (at_ms 0) fresh_client ''USD'' ''EUR'' 7)) ''USD'' ''EUR'' 7) =
     [TimeseriesRequest ''USD'' ''EUR'' 7] \<and>
   \<not> takes_fallback sample_php (upstream_up 0) no_cache usd_to_eur \<and>
   s_time (upstream_up 0) \<le> s_done (upstream_up 0) \<and>
   s_time (upstream_up 100) - s_time (upstream_up 0) < 300 \<and>
   requests (convert_php sample_php (upstream_up 0) no_cache usd_to_eur) =
     [UpstreamConvert ''USD'' ''EUR'' 100] \<and>
   requests (convert_php sample_php (upstream_up 100)
     (cache_after (convert_php sample_php (upstream_up 0) no_cache usd_to_eur)) usd_to_eur) = [] \<and>
   300 \<le> s_time (upstream_up 301) - s_done (upstream_up 0) \<and>
   requests (convert_php sample_php (upstream_up 301)
     (cache_after (convert_php sample_php (upstream_up 0) no_cache usd_to_eur)) usd_to_eur) =
     [UpstreamConvert ''USD'' ''EUR'' 100] \<and>
   ''USD'' \<noteq> [] \<and> ''EUR'' \<noteq> [] \<and> (0::rat) < 100 \<and>
   snd (convert online ''USD'' ''EUR'' 100) = [ConvertRequest ''USD'' ''EUR'' 100]"
proof -
  have u: "toUpperCase ''USD'' = ''USD''" "toUpperCase ''EUR'' = ''EUR''" by code_simp+
  have n: "strtoupper (trim (q_from usd_to_eur)) = ''USD''"
    "strtoupper (trim (q_to usd_to_eur)) = ''EUR''" "floatval (q_amount usd_to_eur) = 100"
    by code_simp+
  have p: "passes_checks usd_to_eur" by code_simp
  have H1: "w_now (at_ms 0) \<le> w_later (at_ms 0) \<and>
      w_now (at_ms 1000) - w_now (at_ms 0) < cacheTimeout"
    by (simp add: at_ms_def cacheTimeout_def)
  have H2: "cacheTimeout \<le> w_now (at_ms 300200) - w_later (at_ms 0)"
    by (simp add: at_ms_def cacheTimeout_def)
  have nf: "\<not> takes_fallback sample_php (upstream_up 0) no_cache usd_to_eur"
    using p upstream_up_not_failed by (simp add: takes_fallback_def)
  have H5: "\<not> takes_fallback sample_php (upstream_up 0) no_cache usd_to_eur \<and>
      s_time (upstream_up 0) \<le> s_done (upstream_up 0) \<and>
      s_time (upstream_up 100) - s_time (upstream_up 0) < 300"
    using nf by (simp add: upstream_up_def)
  have H6: "\<not> takes_fallback sample_php (upstream_up 0) no_cache usd_to_eur \<and>
      300 \<le> s_time (upstream_up 301) - s_done (upstream_up 0)"
    using nf by (simp add: upstream_up_def)
  have H7: "''USD'' \<noteq> [] \<and> ''EUR'' \<noteq> [] \<and> (0::rat) < 100" by simp
  have a1: "requests (getSymbols (at_ms 0) fresh_client) = [SymbolsRequest]"
    by (simp add: getSymbols_requests fresh_client_get)
  have a3: "requests (getTimeSeries (at_ms 0) fresh_client ''USD'' ''EUR'' 7) =
      [TimeseriesRequest ''USD'' ''EUR'' 7]"
    by (simp add: getTimeSeries_requests fresh_client_get u)
  have r3: "returned (getTimeSeries (at_ms 0) fresh_client ''USD'' ''EUR'' 7) = Inr (Backend 9)"
    by (simp add: getTimeSeries_backend [OF fresh_client_get at_ms_request] returned_def)
  have a5: "requests (convert_php sample_php (upstream_up 0) no_cache usd_to_eur) =
      [UpstreamConvert ''USD'' ''EUR'' 100]"
    by (simp add: convert_php_requests [OF p] no_cache_read n)
  note t = cache_two_calls [where ?w1.0 = "at_ms 0" and c = fresh_client and php = sample_php
      and ?e1.0 = "upstream_up 0" and cache = no_cache and q = usd_to_eur
      and frm = "''USD''" and to = "''EUR''" and days = 7
      and w = online and cfrm = "''USD''" and cto = "''EUR''" and amount = 100,
      unfolded Let_def]
  note near = t [where ?w2.0 = "at_ms 1000" and ?e2.0 = "upstream_up 100"]
  note far = t [where ?w2.0 = "at_ms 300200" and ?e2.0 = "upstream_up 301"]
  from mp [OF conjunct1 [OF near] H1] a1
  have 1: "getSymbols (at_ms 1000) (cache_after (getSymbols (at_ms 0) fresh_client)) =
     (returned (getSymbols (at_ms 0) fresh_client),
      cache_after (getSymbols (at_ms 0) fresh_client), [])"
    by simp
  from mp [OF conjunct1 [OF conjunct2 [OF far]] H2] a1
  have 2: "requests (getSymbols (at_ms 300200)
      (cache_after (getSymbols (at_ms 0) fresh_client))) = [SymbolsRequest]"
    by simp
  from mp [OF conjunct1 [OF conjunct2 [OF conjunct2 [OF near]]] H1] a3 r3
  have 3: "getTimeSeries (at_ms 1000)
     (cache_after (getTimeSeries (at_ms 0) fresh_client ''USD'' ''EUR'' 7)) ''USD'' ''EUR'' 7 =
     (returned (getTimeSeries (at_ms 0) fresh_client ''USD'' ''EUR'' 7),
      cache_after (getTimeSeries (at_ms 0) fresh_client ''USD'' ''EUR'' 7), [])"
    by simp
  from mp [OF conjunct1 [OF conjunct2 [OF conjunct2 [OF conjunct2 [OF far]]]] H2] a3 r3
  have 4: "requests (getTimeSeries (at_ms 300200)
     (cache_after (getTimeSeries (at_ms 0) fresh_client ''USD'' ''EUR'' 7)) ''USD'' ''EUR'' 7) =
     [TimeseriesRequest ''USD'' ''EUR'' 7]"
    by (simp add: u)
  from mp [OF conjunct1 [OF conjunct2 [OF conjunct2 [OF conjunct2 [OF conjunct2 [OF near]]]]] H5]
    a5
  have 5: "requests (convert_php sample_php (upstream_up 100)
     (cache_after (convert_php sample_php (upstream_up 0) no_cache usd_to_eur)) usd_to_eur) = []"
    by (auto simp: requests_def)
  from mp [OF conjunct1 [OF conjunct2 [OF conjunct2 [OF conjunct2 [OF conjunct2
    [OF conjunct2 [OF far]]]]]] H6] a5
  have 6: "requests (convert_php sample_php (upstream_up 301)
     (cache_after (convert_php sample_php (upstream_up 0) no_cache usd_to_eur)) usd_to_eur) =
     [UpstreamConvert ''USD'' ''EUR'' 100]"
    by (simp add: n)
  from mp [OF conjunct2 [OF conjunct2 [OF conjunct2 [OF conjunct2 [OF conjunct2
    [OF conjunct2 [OF near]]]]]] H7]
  have 7: "snd (convert online ''USD'' ''EUR'' 100) = [ConvertRequest ''USD'' ''EUR'' 100]"
    by (simp add: u)
  from H1 a1 1 H2 2 a3 r3 3 4 H5 a5 5 H6 6 H7 7 show ?thesis by blast
qed

end
